theory Spec2Isabelle
  imports Main "HOL-Library.Char_ord" "HOL-Library.List_Lexorder"
begin

section \<open>Identities, timestamps and the pair key\<close>

text \<open>
  The ObjectId of a user is the string that \<^verbatim>\<open>toString()\<close> renders: 24 hexadecimal
  digits, the letters in lower case. An identifier that a client sends is any string;
  \<open>castObjectId\<close> is the cast that Mongoose applies to it where a schema or a query by
  \<^verbatim>\<open>_id\<close> expects an ObjectId: a string of 24 hexadecimal digits is read without regard
  to case, every other string is refused (also a string of twelve characters, which
  the ObjectId constructor read as twelve bytes before version 6 of the bson library).
  Strings are ordered lexicographically by
  character code, which is the order of JavaScript's default
  \<^verbatim>\<open>Array.prototype.sort()\<close>. The ObjectIds of chats and messages are the serial numbers
  of the store's generator. A \<^verbatim>\<open>Date\<close> is a number of milliseconds.
\<close>

type_synonym oid = string
type_synonym date = nat

definition is_hex :: "char \<Rightarrow> bool" where
  "is_hex c = (c \<in> set ''0123456789abcdefABCDEF'')"

definition lower_hex :: "char \<Rightarrow> char" where
  "lower_hex c =
     (if c = CHR ''A'' then CHR ''a'' else if c = CHR ''B'' then CHR ''b''
      else if c = CHR ''C'' then CHR ''c'' else if c = CHR ''D'' then CHR ''d''
      else if c = CHR ''E'' then CHR ''e'' else if c = CHR ''F'' then CHR ''f'' else c)"

definition castObjectId :: "string \<Rightarrow> oid option" where
  "castObjectId x =
     (if length x = 24 \<and> list_all is_hex x then Some (map lower_hex x) else None)"

text \<open>
  The text of a message is a JavaScript string, modelled by its UTF-16 code units, so
  that its length is the \<^verbatim>\<open>length\<close> of the source. \<open>utf16\<close> gives the code units of a
  string of Latin-1 characters.
\<close>

type_synonym ustring = "nat list"

definition utf16 :: "string \<Rightarrow> ustring" where
  "utf16 x = map of_char x"

text \<open>\<^verbatim>\<open>Array.prototype.join(sep)\<close> on an array of strings.\<close>

fun join :: "string \<Rightarrow> string list \<Rightarrow> string" where
  "join sep [] = []"
| "join sep [x] = x"
| "join sep (x # y # ys) = x @ sep @ join sep (y # ys)"

text \<open>
  The key computed in the handlers (socket \<^verbatim>\<open>send_message\<close>, \<^verbatim>\<open>POST /\<close>, \<^verbatim>\<open>POST /upload\<close>,
  \<^verbatim>\<open>POST /chat/create\<close>):
  \<^verbatim>\<open>[senderId, receiverId].map(id => id.toString()).sort().join('_')\<close>.
\<close>

definition participantsKey_of :: "string \<Rightarrow> string \<Rightarrow> string" where
  "participantsKey_of senderId receiverId = join ''_'' (sort [senderId, receiverId])"

section \<open>Documents and the store\<close>

text \<open>
  Modelled from the spec: the User schema (\<^verbatim>\<open>models/User.js\<close>) is not among the sources.
  Its fields are those of the spec's data model (identity, display name, avatar reference,
  online flag, last-seen timestamp) under the names the handlers use.
\<close>

record user =
  user_id :: oid
  username :: string
  avatar :: string
  isOnline :: bool
  lastSeen :: date

text \<open>\<^verbatim>\<open>chatSchema\<close>, with the two fields of \<^verbatim>\<open>timestamps: true\<close>.\<close>

record chat =
  chat_id :: nat
  participants :: "oid list"
  participantsKey :: string
  lastMessage :: "nat option"
  lastMessageAt :: "date option"
  isActive :: bool
  chat_createdAt :: date
  chat_updatedAt :: date

text \<open>\<^verbatim>\<open>messageSchema\<close>, with the two fields of \<^verbatim>\<open>timestamps: true\<close>.\<close>

record message =
  msg_id :: nat
  sender :: oid
  receiver :: oid
  content :: ustring
  messageType :: string
  isRead :: bool
  readAt :: "date option"
  chatId :: nat
  isMockMessage :: bool
  msg_createdAt :: date
  msg_updatedAt :: date

text \<open>
  The document store: the three collections in insertion order, and the next serial
  number of the ObjectId generator.
\<close>

record store =
  users :: "user list"
  chats :: "chat list"
  messages :: "message list"
  next_id :: nat

definition empty_store :: store where
  "empty_store = \<lparr>users = [], chats = [], messages = [], next_id = 0\<rparr>"

text \<open>
  What a store call can throw: a driver error with its numeric \<^verbatim>\<open>code\<close> (11000 is the
  duplicate-key error of a unique index), a plain \<^verbatim>\<open>Error\<close>, a schema validation error,
  the \<^verbatim>\<open>CastError\<close> of an identifier that is no ObjectId, and the \<^verbatim>\<open>TypeError\<close> of a
  property read on \<^verbatim>\<open>null\<close>. Only a driver error has a \<^verbatim>\<open>code\<close>.
\<close>

datatype error =
    MongoServerError nat
  | Error string
  | ValidationError string
  | CastError
  | TypeError

fun error_code :: "error \<Rightarrow> nat option" where
  "error_code (MongoServerError c) = Some c"
| "error_code (Error _) = None"
| "error_code (ValidationError _) = None"
| "error_code CastError = None"
| "error_code TypeError = None"

subsection \<open>Queries\<close>

text \<open>The user document with a given ObjectId.\<close>

definition user_by_id :: "store \<Rightarrow> oid \<Rightarrow> user option" where
  "user_by_id s i = find (\<lambda>u. user_id u = i) (users s)"

text \<open>
  \<^verbatim>\<open>User.findById(id)\<close> on an identifier from a request: the identifier is cast first,
  and the query throws when it cannot be cast.
\<close>

definition User_findById :: "store \<Rightarrow> string \<Rightarrow> error + user option" where
  "User_findById s x =
     (case castObjectId x of None \<Rightarrow> Inl CastError | Some i \<Rightarrow> Inr (user_by_id s i))"

definition Chat_findById :: "store \<Rightarrow> nat \<Rightarrow> chat option" where
  "Chat_findById s i = find (\<lambda>c. chat_id c = i) (chats s)"

text \<open>\<^verbatim>\<open>Chat.findOne({ participantsKey })\<close>: no filter on \<^verbatim>\<open>isActive\<close>.\<close>

definition Chat_findOne_key :: "store \<Rightarrow> string \<Rightarrow> chat option" where
  "Chat_findOne_key s k = find (\<lambda>c. participantsKey c = k) (chats s)"

definition Message_findById :: "store \<Rightarrow> nat \<Rightarrow> message option" where
  "Message_findById s i = find (\<lambda>m. msg_id m = i) (messages s)"

fun remove_first :: "('a \<Rightarrow> bool) \<Rightarrow> 'a list \<Rightarrow> 'a list" where
  "remove_first P [] = []"
| "remove_first P (x # xs) = (if P x then xs else x # remove_first P xs)"

fun update_first :: "('a \<Rightarrow> bool) \<Rightarrow> ('a \<Rightarrow> 'a) \<Rightarrow> 'a list \<Rightarrow> 'a list" where
  "update_first P f [] = []"
| "update_first P f (x # xs) = (if P x then f x # xs else x # update_first P f xs)"

text \<open>\<^verbatim>\<open>Message.deleteOne({ _id })\<close>.\<close>

definition Message_deleteOne :: "store \<Rightarrow> nat \<Rightarrow> store" where
  "Message_deleteOne s i = s\<lparr>messages := remove_first (\<lambda>m. msg_id m = i) (messages s)\<rparr>"

text \<open>
  \<^verbatim>\<open>Message.find({ chatId }).sort({ createdAt: -1 }).limit(1)\<close>: a message of the chat
  with the greatest creation time (the earliest stored one among equals), in a list of
  length at most one.
\<close>

fun newest :: "message list \<Rightarrow> message option" where
  "newest [] = None"
| "newest (m # ms) =
     (case newest ms of
        None \<Rightarrow> Some m
      | Some n \<Rightarrow> if msg_createdAt n > msg_createdAt m then Some n else Some m)"

definition Message_find_latest :: "store \<Rightarrow> nat \<Rightarrow> message list" where
  "Message_find_latest s cid =
     (case newest (filter (\<lambda>m. chatId m = cid) (messages s)) of
        None \<Rightarrow> []
      | Some m \<Rightarrow> [m])"

subsection \<open>Saving a message\<close>

text \<open>
  The \<^verbatim>\<open>trim: true\<close> setter of \<^verbatim>\<open>content\<close> is \<^verbatim>\<open>String.prototype.trim\<close>, which strips
  the white space and line terminator code points of ECMAScript from both ends: U+0009
  to U+000D, U+0020, U+00A0, U+1680, U+2000 to U+200A, U+2028, U+2029, U+202F, U+205F,
  U+3000 and U+FEFF.
\<close>

definition is_space :: "nat \<Rightarrow> bool" where
  "is_space u = (u \<in> {9, 10, 11, 12, 13, 32, 160, 5760, 8232, 8233, 8239, 8287, 12288, 65279}
                 \<or> (8192 \<le> u \<and> u \<le> 8202))"

definition trim :: "ustring \<Rightarrow> ustring" where
  "trim s = rev (dropWhile is_space (rev (dropWhile is_space s)))"

text \<open>
  The validators of \<^verbatim>\<open>messageSchema\<close> that a handler's input can fail: \<^verbatim>\<open>content\<close> is
  required and at most 1000 characters after trimming, \<^verbatim>\<open>messageType\<close> is one of the enum.
\<close>

definition Message_validate :: "message \<Rightarrow> error + message" where
  "Message_validate m =
     (let c = trim (content m) in
      if c = [] then Inl (ValidationError ''Message content is required'')
      else if length c > 1000 then Inl (ValidationError ''Message cannot exceed 1000 characters'')
      else if messageType m \<notin> set [''text'', ''image'', ''file'']
        then Inl (ValidationError ''messageType is not a valid enum value'')
      else Inr (m\<lparr>content := c\<rparr>))"

text \<open>
  \<^verbatim>\<open>new Message({sender, receiver, content, messageType, chatId})\<close> followed by
  \<^verbatim>\<open>message.save()\<close>. The two user identities are cast to ObjectIds, and the save fails
  when one cannot be cast. The generator advances when the document is stored.
\<close>

definition Message_save ::
  "date \<Rightarrow> store \<Rightarrow> string \<Rightarrow> string \<Rightarrow> ustring \<Rightarrow> string \<Rightarrow> nat
   \<Rightarrow> error + store \<times> message" where
  "Message_save now s sender_id receiver_id cont mtype cid =
     (case (castObjectId sender_id, castObjectId receiver_id) of
        (Some a, Some b) \<Rightarrow>
          (case Message_validate
             \<lparr>msg_id = next_id s, sender = a, receiver = b, content = cont,
              messageType = mtype, isRead = False, readAt = None, chatId = cid,
              isMockMessage = False, msg_createdAt = now, msg_updatedAt = now\<rparr> of
             Inl e \<Rightarrow> Inl e
           | Inr m \<Rightarrow> Inr (s\<lparr>messages := messages s @ [m], next_id := Suc (next_id s)\<rparr>, m))
      | _ \<Rightarrow> Inl CastError)"

subsection \<open>Saving a chat\<close>

text \<open>
  \<^verbatim>\<open>chatSchema.pre('validate')\<close>: exactly two participants, which are sorted as strings
  and joined into \<^verbatim>\<open>participantsKey\<close>. The hook runs on every \<^verbatim>\<open>save()\<close>.
\<close>

definition pre_validate :: "chat \<Rightarrow> error + chat" where
  "pre_validate c =
     (if length (participants c) \<noteq> 2 then Inl (Error ''Chat must have exactly 2 participants'')
      else let sorted = sort (participants c)
           in Inr (c\<lparr>participants := sorted, participantsKey := join ''_'' sorted\<rparr>))"

text \<open>
  \<^verbatim>\<open>new Chat({participants, isActive: true})\<close> followed by \<^verbatim>\<open>chat.save()\<close>. The
  participants are cast to ObjectIds, so the hook sorts and joins their canonical
  strings, whatever strings the handler passed; the save fails when one cannot be cast.
  \<^verbatim>\<open>lastMessageAt\<close> takes its default \<^verbatim>\<open>Date.now\<close>. The insert is made under the unique
  index on \<^verbatim>\<open>participantsKey\<close>: a stored chat with the same key makes it fail with code
  11000. \<open>fault\<close> is an error of the store itself (connection lost, time-out), given by
  the environment; \<open>None\<close> when the store answers.
\<close>

definition Chat_create ::
  "error option \<Rightarrow> date \<Rightarrow> store \<Rightarrow> string list \<Rightarrow> error + store \<times> chat" where
  "Chat_create fault now s ps =
     (case fault of
        Some e \<Rightarrow> Inl e
      | None \<Rightarrow>
         (case those (map castObjectId ps) of
            None \<Rightarrow> Inl CastError
          | Some ids \<Rightarrow>
             (case pre_validate
                \<lparr>chat_id = next_id s, participants = ids, participantsKey = [],
                 lastMessage = None, lastMessageAt = Some now, isActive = True,
                 chat_createdAt = now, chat_updatedAt = now\<rparr> of
                Inl e \<Rightarrow> Inl e
              | Inr c \<Rightarrow>
                 if list_ex (\<lambda>d. participantsKey d = participantsKey c) (chats s)
                 then Inl (MongoServerError 11000)
                 else Inr (s\<lparr>chats := chats s @ [c], next_id := Suc (next_id s)\<rparr>, c))))"

text \<open>
  \<^verbatim>\<open>chat.save()\<close> on a chat document that was read from the store and changed in memory:
  the hook runs again, and the stored document with this \<^verbatim>\<open>_id\<close> takes the new field
  values. The update touches the unique index only when the hook has changed the key of
  the stored document; it then fails with code 11000 if another document has the new
  key. Saving a document that is no longer stored fails.
\<close>

definition Chat_save :: "date \<Rightarrow> store \<Rightarrow> chat \<Rightarrow> error + store \<times> chat" where
  "Chat_save now s c =
     (case pre_validate c of
        Inl e \<Rightarrow> Inl e
      | Inr c' \<Rightarrow>
         (case find (\<lambda>d. chat_id d = chat_id c') (chats s) of
            None \<Rightarrow> Inl (Error ''No document found for query'')
          | Some stored \<Rightarrow>
             if participantsKey c' \<noteq> participantsKey stored
                \<and> list_ex (\<lambda>d. chat_id d \<noteq> chat_id c' \<and> participantsKey d = participantsKey c')
                      (chats s)
             then Inl (MongoServerError 11000)
             else Inr (s\<lparr>chats := map (\<lambda>d. if chat_id d = chat_id c'
                                               then c'\<lparr>chat_updatedAt := now\<rparr> else d) (chats s)\<rparr>,
                       c'\<lparr>chat_updatedAt := now\<rparr>)))"

section \<open>Resolving the chat of a pair\<close>

text \<open>
  A handler is suspended at every \<^verbatim>\<open>await\<close>, and other handlers and processes write
  to the store meanwhile. For the resolver this is part of the model: \<open>before_save\<close> is
  what the others did between this handler's first read and its insert,
  \<open>before_reread\<close> what they did between a failed insert and the second read, and
  \<open>save_fault\<close> the store's own failure of the insert, if any.
\<close>

record env =
  save_fault :: "error option"
  before_save :: "store \<Rightarrow> store"
  before_reread :: "store \<Rightarrow> store"

definition quiet :: env where
  "quiet = \<lparr>save_fault = None, before_save = (\<lambda>s. s), before_reread = (\<lambda>s. s)\<rparr>"

text \<open>
  The find-or-create block, which stands in the same words in the socket handler
  \<^verbatim>\<open>send_message\<close>, in \<^verbatim>\<open>POST /\<close> and in \<^verbatim>\<open>POST /upload\<close>: look the chat up by the pair
  key; if there is none, insert one; on a duplicate-key error look it up again and
  rethrow the error if it is still not there; rethrow every other error. The key of the
  two reads is joined from the sender's identity and the receiver identifier as the
  request has it; the key of the insert is the one the hook computes.
\<close>

definition resolve_chat ::
  "env \<Rightarrow> date \<Rightarrow> store \<Rightarrow> oid \<Rightarrow> string \<Rightarrow> store \<times> (error + chat)" where
  "resolve_chat e now s senderId receiverId =
     (let key = participantsKey_of senderId receiverId in
      case Chat_findOne_key s key of
        Some chat \<Rightarrow> (s, Inr chat)
      | None \<Rightarrow>
         (let s1 = before_save e s in
          case Chat_create (save_fault e) now s1 [senderId, receiverId] of
            Inr (s2, chat) \<Rightarrow> (s2, Inr chat)
          | Inl err \<Rightarrow>
             if error_code err = Some 11000 then
               (let s3 = before_reread e s1 in
                case Chat_findOne_key s3 key of
                  Some chat \<Rightarrow> (s3, Inr chat)
                | None \<Rightarrow> (s3, Inl err))
             else (s1, Inl err)))"

text \<open>
  The block of \<^verbatim>\<open>POST /chat/create\<close> differs in one place: after a duplicate-key error
  the second read is not checked, so the chat may be \<^verbatim>\<open>null\<close>.
\<close>

definition resolve_chat_create ::
  "env \<Rightarrow> date \<Rightarrow> store \<Rightarrow> oid \<Rightarrow> string \<Rightarrow> store \<times> (error + chat option)" where
  "resolve_chat_create e now s senderId receiverId =
     (let key = participantsKey_of senderId receiverId in
      case Chat_findOne_key s key of
        Some chat \<Rightarrow> (s, Inr (Some chat))
      | None \<Rightarrow>
         (let s1 = before_save e s in
          case Chat_create (save_fault e) now s1 [senderId, receiverId] of
            Inr (s2, chat) \<Rightarrow> (s2, Inr (Some chat))
          | Inl err \<Rightarrow>
             if error_code err = Some 11000 then
               (let s3 = before_reread e s1 in (s3, Inr (Chat_findOne_key s3 key)))
             else (s1, Inl err)))"

section \<open>Sending\<close>

text \<open>
  What a handler sends out: socket events (\<^verbatim>\<open>socket.emit\<close>, \<^verbatim>\<open>io.to(room).emit\<close>,
  \<^verbatim>\<open>socket.broadcast.emit\<close>) and HTTP responses (status and message).
\<close>

datatype room = UserRoom oid | ChatRoom nat

datatype target = ThisSocket | InRoom room | OtherSockets

datatype payload =
    P_error string
  | P_user_online oid string string
  | P_user_offline oid string
  | P_message message
  | P_message_read nat "date option"
  | P_message_deleted nat nat

datatype emit = Emit target string payload

datatype response = Response nat string

fun status :: "response \<Rightarrow> nat" where
  "status (Response n _) = n"

text \<open>\<^verbatim>\<open>populate\<close> of a single reference: the document, or \<^verbatim>\<open>null\<close> when there is none.\<close>

definition populate_user :: "store \<Rightarrow> oid \<Rightarrow> user option" where
  "populate_user s i = user_by_id s i"

definition populate_lastMessage :: "store \<Rightarrow> chat \<Rightarrow> message option" where
  "populate_lastMessage s c =
     (case lastMessage c of None \<Rightarrow> None | Some i \<Rightarrow> Message_findById s i)"

text \<open>
  The socket handler \<^verbatim>\<open>send_message\<close> of the user \<open>userId\<close> (\<^verbatim>\<open>socket.userId\<close>), with the
  fields of \<^verbatim>\<open>data\<close>; \<^verbatim>\<open>messageType\<close> defaults to \<^verbatim>\<open>'text'\<close>. Every error thrown inside
  \<^verbatim>\<open>try\<close>, the one of the first lookup included, ends in the event \<^verbatim>\<open>error\<close> with the
  text \<^verbatim>\<open>Error sending message\<close>; what was written before it stays written. The
  formatted message reads \<^verbatim>\<open>message.sender._id\<close> and \<^verbatim>\<open>message.receiver._id\<close> of the
  populated message, which throws when a user is gone. The receiver's room is named by
  the identifier as the request has it.
\<close>

definition send_message ::
  "env \<Rightarrow> date \<Rightarrow> oid \<Rightarrow> string \<Rightarrow> ustring \<Rightarrow> string option \<Rightarrow> store
   \<Rightarrow> store \<times> emit list" where
  "send_message e now userId receiverId cont mtype s =
     (case User_findById s receiverId of
        Inl _ \<Rightarrow> (s, [Emit ThisSocket ''error'' (P_error ''Error sending message'')])
      | Inr None \<Rightarrow> (s, [Emit ThisSocket ''error'' (P_error ''Receiver not found'')])
      | Inr (Some _) \<Rightarrow>
         (case resolve_chat e now s userId receiverId of
            (s1, Inl _) \<Rightarrow> (s1, [Emit ThisSocket ''error'' (P_error ''Error sending message'')])
          | (s1, Inr chat) \<Rightarrow>
             (case Message_save now s1 userId receiverId cont
                     (case mtype of None \<Rightarrow> ''text'' | Some t \<Rightarrow> t) (chat_id chat) of
                Inl _ \<Rightarrow> (s1, [Emit ThisSocket ''error'' (P_error ''Error sending message'')])
              | Inr (s2, msg) \<Rightarrow>
                 (case Chat_save now s2
                         (chat\<lparr>lastMessage := Some (msg_id msg), lastMessageAt := Some now\<rparr>) of
                    Inl _ \<Rightarrow> (s2, [Emit ThisSocket ''error'' (P_error ''Error sending message'')])
                  | Inr (s3, _) \<Rightarrow>
                     (case (populate_user s3 (sender msg), populate_user s3 (receiver msg)) of
                        (Some _, Some _) \<Rightarrow>
                          (s3, [Emit (InRoom (UserRoom receiverId)) ''new_message'' (P_message msg),
                                Emit ThisSocket ''message_sent'' (P_message msg),
                                Emit (InRoom (ChatRoom (chat_id chat))) ''chat_message'' (P_message msg)])
                      | _ \<Rightarrow> (s3, [Emit ThisSocket ''error'' (P_error ''Error sending message'')]))))))"

text \<open>
  The validators of express-validator are those of validator.js. \<^verbatim>\<open>isHexadecimal\<close>
  matches \<^verbatim>\<open>/^(0x|0h)?[0-9A-F]+$/i\<close>, and \<^verbatim>\<open>isMongoId\<close> is \<^verbatim>\<open>isHexadecimal\<close> on a string
  of length 24, so it also accepts a prefix \<^verbatim>\<open>0x\<close> or \<^verbatim>\<open>0h\<close> before 22 digits.
\<close>

definition isHexadecimal :: "string \<Rightarrow> bool" where
  "isHexadecimal x =
     ((x \<noteq> [] \<and> list_all is_hex x)
      \<or> (take 2 x \<in> set [''0x'', ''0X'', ''0h'', ''0H'']
          \<and> drop 2 x \<noteq> [] \<and> list_all is_hex (drop 2 x)))"

definition isMongoId :: "string \<Rightarrow> bool" where
  "isMongoId x = (isHexadecimal x \<and> length x = 24)"

text \<open>
  \<^verbatim>\<open>isLength({ max })\<close> counts the code units of the string less the variation
  selectors U+FE0E and U+FE0F and less one for every surrogate pair (the matches of
  \<^verbatim>\<open>/[\uD800-\uDBFF][\uDC00-\uDFFF]/g\<close>, from left to right).
\<close>

fun surrogate_pairs :: "ustring \<Rightarrow> nat" where
  "surrogate_pairs (h # l # us) =
     (if 55296 \<le> h \<and> h \<le> 56319 \<and> 56320 \<le> l \<and> l \<le> 57343
      then Suc (surrogate_pairs us) else surrogate_pairs (l # us))"
| "surrogate_pairs us = 0"

definition isLength_max :: "nat \<Rightarrow> ustring \<Rightarrow> bool" where
  "isLength_max n x =
     (length x - length (filter (\<lambda>u. u = 65039 \<or> u = 65038) x) - surrogate_pairs x \<le> n)"

text \<open>
  \<^verbatim>\<open>POST /api/messages\<close>, for the authenticated user \<open>senderId\<close> (\<^verbatim>\<open>req.user._id\<close>). The
  body is validated first (\<^verbatim>\<open>receiverId\<close> a MongoId, \<^verbatim>\<open>content\<close> not empty and of length
  at most 1000); every error thrown later ends in status 500.
\<close>

definition post_message ::
  "env \<Rightarrow> date \<Rightarrow> oid \<Rightarrow> string \<Rightarrow> ustring \<Rightarrow> string option \<Rightarrow> store
   \<Rightarrow> store \<times> response" where
  "post_message e now senderId receiverId cont mtype s =
     (if \<not> isMongoId receiverId \<or> cont = [] \<or> \<not> isLength_max 1000 cont
      then (s, Response 400 ''Validation failed'')
      else
       (case User_findById s receiverId of
          Inl _ \<Rightarrow> (s, Response 500 ''Server error while sending message'')
        | Inr None \<Rightarrow> (s, Response 404 ''Receiver not found'')
        | Inr (Some _) \<Rightarrow>
           (case resolve_chat e now s senderId receiverId of
              (s1, Inl _) \<Rightarrow> (s1, Response 500 ''Server error while sending message'')
            | (s1, Inr chat) \<Rightarrow>
               (case Message_save now s1 senderId receiverId cont
                       (case mtype of None \<Rightarrow> ''text'' | Some t \<Rightarrow> t) (chat_id chat) of
                  Inl _ \<Rightarrow> (s1, Response 500 ''Server error while sending message'')
                | Inr (s2, msg) \<Rightarrow>
                   (case Chat_save now s2
                           (chat\<lparr>lastMessage := Some (msg_id msg), lastMessageAt := Some now\<rparr>) of
                      Inl _ \<Rightarrow> (s2, Response 500 ''Server error while sending message'')
                    | Inr (s3, _) \<Rightarrow> (s3, Response 201 ''Message sent successfully''))))))"

text \<open>
  \<^verbatim>\<open>POST /api/messages/upload\<close>. \<open>receiverId\<close> is \<open>None\<close> when the body has none, \<open>file\<close>
  is the name and MIME type of the uploaded file, if any, and \<open>base_url\<close> is the
  environment's \<^verbatim>\<open>REACT_APP_SOCKET_URL\<close>. The chat is resolved before the file is looked
  at.
\<close>

record upload_file =
  filename :: ustring
  mimetype :: string

definition post_upload ::
  "env \<Rightarrow> date \<Rightarrow> ustring \<Rightarrow> oid \<Rightarrow> string option \<Rightarrow> upload_file option \<Rightarrow> store
   \<Rightarrow> store \<times> response" where
  "post_upload e now base_url senderId receiverId file s =
     (case receiverId of
        None \<Rightarrow> (s, Response 400 ''receiverId is required'')
      | Some rid \<Rightarrow>
         if rid = [] then (s, Response 400 ''receiverId is required'')
         else
          (case User_findById s rid of
             Inl _ \<Rightarrow> (s, Response 500 ''Server error while uploading message'')
           | Inr None \<Rightarrow> (s, Response 404 ''Receiver not found'')
           | Inr (Some _) \<Rightarrow>
              (case resolve_chat e now s senderId rid of
                 (s1, Inl _) \<Rightarrow> (s1, Response 500 ''Server error while uploading message'')
               | (s1, Inr chat) \<Rightarrow>
                  (case file of
                     None \<Rightarrow> (s1, Response 400 ''No file uploaded'')
                   | Some f \<Rightarrow>
                      (case Message_save now s1 senderId rid
                              (base_url @ utf16 ''/uploads/messages/'' @ filename f)
                              (if take 6 (mimetype f) = ''image/'' then ''image'' else ''file'')
                              (chat_id chat) of
                         Inl _ \<Rightarrow> (s1, Response 500 ''Server error while uploading message'')
                       | Inr (s2, msg) \<Rightarrow>
                          (case Chat_save now s2
                                  (chat\<lparr>lastMessage := Some (msg_id msg), lastMessageAt := Some now\<rparr>) of
                             Inl _ \<Rightarrow> (s2, Response 500 ''Server error while uploading message'')
                           | Inr (s3, _) \<Rightarrow>
                              (case (populate_user s3 (sender msg), populate_user s3 (receiver msg)) of
                                 (Some _, Some _) \<Rightarrow> (s3, Response 201 ''File message sent'')
                               | _ \<Rightarrow> (s3, Response 500 ''Server error while uploading message''))))))))"

text \<open>
  \<^verbatim>\<open>populate\<close> of the array \<^verbatim>\<open>participants\<close>. Whether an identity without a user stays in
  the array as \<^verbatim>\<open>null\<close> or is dropped from it is Mongoose's populate option
  \<^verbatim>\<open>retainNullValues\<close>, which is a parameter here.
\<close>

definition populate_participants :: "bool \<Rightarrow> store \<Rightarrow> chat \<Rightarrow> user option list" where
  "populate_participants retainNullValues s c =
     (let ps = map (user_by_id s) (participants c)
      in if retainNullValues then ps else filter (\<lambda>p. p \<noteq> None) ps)"

text \<open>
  \<^verbatim>\<open>chat.participants.find((p) => p._id.toString() !== senderId.toString())\<close>: reading
  \<^verbatim>\<open>p._id\<close> of a \<^verbatim>\<open>null\<close> entry throws.
\<close>

fun find_other :: "oid \<Rightarrow> user option list \<Rightarrow> error + user option" where
  "find_other me [] = Inr None"
| "find_other me (None # ps) = Inl TypeError"
| "find_other me (Some u # ps) = (if user_id u \<noteq> me then Inr (Some u) else find_other me ps)"

text \<open>\<^verbatim>\<open>POST /api/messages/chat/create\<close>.\<close>

definition post_chat_create ::
  "bool \<Rightarrow> env \<Rightarrow> date \<Rightarrow> oid \<Rightarrow> string \<Rightarrow> store \<Rightarrow> store \<times> response" where
  "post_chat_create retainNullValues e now senderId receiverId s =
     (if \<not> isMongoId receiverId then (s, Response 400 ''Validation failed'')
      else
       (case User_findById s receiverId of
          Inl _ \<Rightarrow> (s, Response 500 ''Server error while creating chat'')
        | Inr None \<Rightarrow> (s, Response 404 ''Receiver not found'')
        | Inr (Some _) \<Rightarrow>
           (case resolve_chat_create e now s senderId receiverId of
              (s1, Inl _) \<Rightarrow> (s1, Response 500 ''Server error while creating chat'')
            | (s1, Inr None) \<Rightarrow> (s1, Response 500 ''Server error while creating chat'')
            | (s1, Inr (Some chat)) \<Rightarrow>
               (case find_other senderId (populate_participants retainNullValues s1 chat) of
                  Inl _ \<Rightarrow> (s1, Response 500 ''Server error while creating chat'')
                | Inr None \<Rightarrow> (s1, Response 500 ''Error finding chat participant'')
                | Inr (Some _) \<Rightarrow> (s1, Response 201 ''Chat created successfully'')))))"

section \<open>Deleting and reading\<close>

text \<open>
  The block after \<^verbatim>\<open>Message.deleteOne\<close>, the same in the socket handler and in the
  route: read the chat with its \<^verbatim>\<open>lastMessage\<close> populated and, if that message is the
  deleted one, point the chat at the newest message left, or at nothing. It runs on the
  store from which the message has already been removed.
\<close>

definition update_lastMessage :: "date \<Rightarrow> store \<Rightarrow> nat \<Rightarrow> nat \<Rightarrow> error + store" where
  "update_lastMessage now s cid messageId =
     (case Chat_findById s cid of
        None \<Rightarrow> Inr s
      | Some chat \<Rightarrow>
         (case populate_lastMessage s chat of
            None \<Rightarrow> Inr s
          | Some lm \<Rightarrow>
             if msg_id lm = messageId then
               (case (case Message_find_latest s cid of
                        latest # _ \<Rightarrow>
                          Chat_save now s (chat\<lparr>lastMessage := Some (msg_id latest),
                                                lastMessageAt := Some (msg_createdAt latest)\<rparr>)
                      | [] \<Rightarrow>
                          Chat_save now s (chat\<lparr>lastMessage := None, lastMessageAt := None\<rparr>)) of
                  Inl err \<Rightarrow> Inl err
                | Inr (s', _) \<Rightarrow> Inr s')
             else Inr s))"

text \<open>
  The socket handler \<^verbatim>\<open>delete_message\<close>; \<open>messageId\<close> and \<open>cid\<close> are the two fields of
  \<^verbatim>\<open>data\<close>, so the chat is the one the client names.
\<close>

definition delete_message :: "date \<Rightarrow> oid \<Rightarrow> nat \<Rightarrow> nat \<Rightarrow> store \<Rightarrow> store \<times> emit list" where
  "delete_message now userId messageId cid s =
     (case Message_findById s messageId of
        None \<Rightarrow> (s, [Emit ThisSocket ''error'' (P_error ''Message not found'')])
      | Some msg \<Rightarrow>
         if sender msg \<noteq> userId
         then (s, [Emit ThisSocket ''error'' (P_error ''Not authorized to delete this message'')])
         else
          (let s1 = Message_deleteOne s messageId in
           case update_lastMessage now s1 cid messageId of
             Inl _ \<Rightarrow> (s1, [Emit ThisSocket ''error'' (P_error ''Error deleting message'')])
           | Inr s2 \<Rightarrow>
              (s2, [Emit (InRoom (ChatRoom cid)) ''message_deleted'' (P_message_deleted messageId cid),
                    Emit (InRoom (UserRoom (receiver msg))) ''message_deleted''
                      (P_message_deleted messageId cid),
                    Emit ThisSocket ''message_deleted'' (P_message_deleted messageId cid)])))"

text \<open>
  \<^verbatim>\<open>DELETE /api/messages/:id\<close>; the chat is the message's own \<^verbatim>\<open>chatId\<close>. The uploaded
  file of an image or file message is removed from the disk, which is not part of the
  store.
\<close>

definition delete_route :: "date \<Rightarrow> oid \<Rightarrow> nat \<Rightarrow> store \<Rightarrow> store \<times> response" where
  "delete_route now userId messageId s =
     (case Message_findById s messageId of
        None \<Rightarrow> (s, Response 404 ''Message not found'')
      | Some msg \<Rightarrow>
         if sender msg \<noteq> userId
         then (s, Response 403 ''Not authorized to delete this message'')
         else
          (let s1 = Message_deleteOne s messageId in
           case update_lastMessage now s1 (chatId msg) messageId of
             Inl _ \<Rightarrow> (s1, Response 500 ''Server error while deleting message'')
           | Inr s2 \<Rightarrow> (s2, Response 200 ''Message deleted'')))"

text \<open>
  \<^verbatim>\<open>Message.findByIdAndUpdate(messageId, {isRead: true, readAt: new Date()}, {new: true})\<close>;
  the schema's timestamps refresh \<^verbatim>\<open>updatedAt\<close> as well.
\<close>

definition Message_findByIdAndUpdate_read :: "date \<Rightarrow> store \<Rightarrow> nat \<Rightarrow> store \<times> message option" where
  "Message_findByIdAndUpdate_read now s messageId =
     (case Message_findById s messageId of
        None \<Rightarrow> (s, None)
      | Some m \<Rightarrow>
         (s\<lparr>messages := update_first (\<lambda>x. msg_id x = messageId)
                            (\<lambda>x. x\<lparr>isRead := True, readAt := Some now, msg_updatedAt := now\<rparr>)
                            (messages s)\<rparr>,
          Some (m\<lparr>isRead := True, readAt := Some now, msg_updatedAt := now\<rparr>)))"

text \<open>The socket handler \<^verbatim>\<open>mark_message_read\<close>.\<close>

definition mark_message_read :: "date \<Rightarrow> nat \<Rightarrow> store \<Rightarrow> store \<times> emit list" where
  "mark_message_read now messageId s =
     (case Message_findByIdAndUpdate_read now s messageId of
        (s', None) \<Rightarrow> (s', [])
      | (s', Some m) \<Rightarrow>
          (s', [Emit (InRoom (UserRoom (sender m))) ''message_read''
                  (P_message_read (msg_id m) (readAt m))]))"

section \<open>Presence\<close>

text \<open>
  The entry \<^verbatim>\<open>activeUsers\<close> keeps for a user, and the server: the store, the map
  \<^verbatim>\<open>activeUsers\<close> (one entry for each user identity), and the connections that socket.io
  holds open, each with its \<^verbatim>\<open>socket.id\<close> and \<^verbatim>\<open>socket.userId\<close>.
\<close>

record session =
  socketId :: nat
  session_user :: user
  connectedAt :: date

record server =
  db :: store
  activeUsers :: "oid \<rightharpoonup> session"
  sockets :: "(nat \<times> oid) list"

text \<open>\<^verbatim>\<open>User.findByIdAndUpdate(userId, {isOnline, lastSeen: new Date()})\<close>.\<close>

definition User_set_presence :: "store \<Rightarrow> oid \<Rightarrow> bool \<Rightarrow> date \<Rightarrow> store" where
  "User_set_presence s i online now =
     s\<lparr>users := update_first (\<lambda>u. user_id u = i)
                   (\<lambda>u. u\<lparr>isOnline := online, lastSeen := now\<rparr>) (users s)\<rparr>"

text \<open>
  \<^verbatim>\<open>io.on('connection')\<close> for the socket \<open>sid\<close>, whose handshake found the user \<open>u\<close>
  (\<^verbatim>\<open>socket.user\<close>).
\<close>

definition connection :: "date \<Rightarrow> nat \<Rightarrow> user \<Rightarrow> server \<Rightarrow> server \<times> emit list" where
  "connection now sid u srv =
     (srv\<lparr>db := User_set_presence (db srv) (user_id u) True now,
          activeUsers := (activeUsers srv)(user_id u \<mapsto>
                            \<lparr>socketId = sid, session_user = u, connectedAt = now\<rparr>),
          sockets := sockets srv @ [(sid, user_id u)]\<rparr>,
      [Emit OtherSockets ''user_online'' (P_user_online (user_id u) (username u) (avatar u))])"

text \<open>The handler of \<^verbatim>\<open>disconnect\<close> on that socket.\<close>

definition disconnect :: "date \<Rightarrow> nat \<Rightarrow> user \<Rightarrow> server \<Rightarrow> server \<times> emit list" where
  "disconnect now sid u srv =
     (srv\<lparr>db := User_set_presence (db srv) (user_id u) False now,
          activeUsers := (activeUsers srv)(user_id u := None),
          sockets := filter (\<lambda>c. fst c \<noteq> sid) (sockets srv)\<rparr>,
      [Emit OtherSockets ''user_offline'' (P_user_offline (user_id u) (username u))])"

text \<open>The live connections of a user.\<close>

definition sessions_of :: "server \<Rightarrow> oid \<Rightarrow> nat list" where
  "sessions_of srv i = map fst (filter (\<lambda>c. snd c = i) (sockets srv))"

section \<open>The reconciliation sweep\<close>

text \<open>\<^verbatim>\<open>chat.participants.some(p => p === null)\<close> on the populated chat.\<close>

definition hasNullParticipant :: "bool \<Rightarrow> store \<Rightarrow> chat \<Rightarrow> bool" where
  "hasNullParticipant retainNullValues s c =
     list_ex (\<lambda>p. p = None) (populate_participants retainNullValues s c)"

text \<open>
  The \<^verbatim>\<open>Map\<close> from \<^verbatim>\<open>participantsKey\<close> to the chats with that key, in insertion order:
  \<^verbatim>\<open>duplicateChats.get(key).push(chat)\<close>, after \<^verbatim>\<open>set(key, [])\<close> for a new key.
\<close>

fun group_push :: "chat \<Rightarrow> (string \<times> chat list) list \<Rightarrow> (string \<times> chat list) list" where
  "group_push c [] = [(participantsKey c, [c])]"
| "group_push c ((k, cs) # g) =
     (if k = participantsKey c then (k, cs @ [c]) # g else (k, cs) # group_push c g)"

text \<open>\<^verbatim>\<open>a.lastMessageAt || a.createdAt || 0\<close>.\<close>

definition chat_time :: "chat \<Rightarrow> date" where
  "chat_time c = (case lastMessageAt c of Some t \<Rightarrow> t | None \<Rightarrow> chat_createdAt c)"

text \<open>
  \<^verbatim>\<open>chats.sort((a, b) => bTime - aTime)\<close>: a stable sort, latest first.
\<close>

fun insert_desc :: "chat \<Rightarrow> chat list \<Rightarrow> chat list" where
  "insert_desc c [] = [c]"
| "insert_desc c (d # ds) =
     (if chat_time d > chat_time c then d # insert_desc c ds else c # d # ds)"

definition sort_desc :: "chat list \<Rightarrow> chat list" where
  "sort_desc cs = foldr insert_desc cs []"

text \<open>\<^verbatim>\<open>Message.updateMany({chatId: {$in: ids}}, {chatId: keep})\<close>.\<close>

definition Message_updateMany_chatId :: "date \<Rightarrow> nat list \<Rightarrow> nat \<Rightarrow> store \<Rightarrow> store" where
  "Message_updateMany_chatId now ids keep s =
     s\<lparr>messages := map (\<lambda>m. if chatId m \<in> set ids
                              then m\<lparr>chatId := keep, msg_updatedAt := now\<rparr> else m) (messages s)\<rparr>"

text \<open>\<^verbatim>\<open>Chat.updateMany({_id: {$in: ids}}, {isActive: false})\<close>.\<close>

definition Chat_updateMany_deactivate :: "date \<Rightarrow> nat list \<Rightarrow> store \<Rightarrow> store" where
  "Chat_updateMany_deactivate now ids s =
     s\<lparr>chats := map (\<lambda>c. if chat_id c \<in> set ids
                           then c\<lparr>isActive := False, chat_updatedAt := now\<rparr> else c) (chats s)\<rparr>"

text \<open>
  One turn of the loop over the groups: a group of more than one chat is sorted, its
  first chat is kept, the messages of the others are moved to it and the others are
  listed for deactivation. The state of the loop is the store, \<^verbatim>\<open>chatsToDeactivate\<close> and
  \<^verbatim>\<open>mergedChats\<close>.
\<close>

fun merge_group ::
  "date \<Rightarrow> store \<times> nat list \<times> nat \<Rightarrow> string \<times> chat list \<Rightarrow> store \<times> nat list \<times> nat" where
  "merge_group now (s, chatsToDeactivate, mergedChats) (k, cs) =
     (if length cs > 1 then
        (case sort_desc cs of
           [] \<Rightarrow> (s, chatsToDeactivate, mergedChats)
         | keepChat # dups \<Rightarrow>
            (Message_updateMany_chatId now (map chat_id dups) (chat_id keepChat) s,
             chatsToDeactivate @ map chat_id dups,
             mergedChats + (length cs - 1)))
      else (s, chatsToDeactivate, mergedChats))"

text \<open>
  \<^verbatim>\<open>POST /api/messages/chats/cleanup\<close>. The result carries the counts of the response
  (orphaned chats, merged chats).
\<close>

definition chats_cleanup :: "bool \<Rightarrow> date \<Rightarrow> store \<Rightarrow> store \<times> nat \<times> nat" where
  "chats_cleanup retainNullValues now s =
     (let allChats = filter isActive (chats s);
          orphanedChatIds = map chat_id (filter (hasNullParticipant retainNullValues s) allChats);
          duplicateChats = foldl (\<lambda>g c. group_push c g) []
                             (filter (\<lambda>c. \<not> hasNullParticipant retainNullValues s c) allChats)
      in case foldl (merge_group now) (s, orphanedChatIds, 0) duplicateChats of
           (s1, chatsToDeactivate, mergedChats) \<Rightarrow>
             (if chatsToDeactivate \<noteq> []
              then Chat_updateMany_deactivate now chatsToDeactivate s1 else s1,
              length orphanedChatIds, mergedChats))"








section \<open>Runs of the system\<close>

text \<open>
  The writes that the code in this repository issues against the store. A write that
  fails leaves the store as it is. Besides the handlers below, the chat list route
  deactivates chats in the background (\<open>W_chat_deactivate\<close>) and the presence handlers
  update users (\<open>W_user_presence\<close>). The account routes, which are not among the sources,
  create and delete users: \<open>W_users\<close> leaves the collection of users as they leave it.
\<close>

datatype db_write =
    W_chat_create date "string list"
  | W_chat_save date chat
  | W_chat_deactivate date "nat list"
  | W_message_save date string string ustring string nat
  | W_message_delete nat
  | W_message_read date nat
  | W_message_move date "nat list" nat
  | W_user_presence oid bool date
  | W_users "user list"

fun apply_write :: "db_write \<Rightarrow> store \<Rightarrow> store" where
  "apply_write (W_chat_create now ps) s =
     (case Chat_create None now s ps of Inl _ \<Rightarrow> s | Inr (s', _) \<Rightarrow> s')"
| "apply_write (W_chat_save now c) s =
     (case Chat_save now s c of Inl _ \<Rightarrow> s | Inr (s', _) \<Rightarrow> s')"
| "apply_write (W_chat_deactivate now ids) s = Chat_updateMany_deactivate now ids s"
| "apply_write (W_message_save now a b cont mtype cid) s =
     (case Message_save now s a b cont mtype cid of Inl _ \<Rightarrow> s | Inr (s', _) \<Rightarrow> s')"
| "apply_write (W_message_delete i) s = Message_deleteOne s i"
| "apply_write (W_message_read now i) s = fst (Message_findByIdAndUpdate_read now s i)"
| "apply_write (W_message_move now ids keep) s = Message_updateMany_chatId now ids keep s"
| "apply_write (W_user_presence i online now) s = User_set_presence s i online now"
| "apply_write (W_users us) s = s\<lparr>users := us\<rparr>"

definition run_writes :: "db_write list \<Rightarrow> store \<Rightarrow> store" where
  "run_writes ws s = fold apply_write ws s"

text \<open>
  The environment of a resolver whose suspensions are filled with writes of other
  handlers: \<open>ws1\<close> between the first read and the insert, \<open>ws2\<close> between the failed
  insert and the second read.
\<close>

definition racing :: "error option \<Rightarrow> db_write list \<Rightarrow> db_write list \<Rightarrow> env" where
  "racing fault ws1 ws2 =
     \<lparr>save_fault = fault, before_save = run_writes ws1, before_reread = run_writes ws2\<rparr>"

text \<open>A request to one of the handlers, or a single write.\<close>

datatype request =
    SendMessage date oid string ustring "string option"
  | PostMessage date oid string ustring "string option"
  | PostUpload date ustring oid "string option" "upload_file option"
  | PostChatCreate bool date oid string
  | DeleteMessage date oid nat nat
  | DeleteRoute date oid nat
  | MarkMessageRead date nat
  | ChatsCleanup bool date
  | Other db_write

fun handle :: "env \<Rightarrow> request \<Rightarrow> store \<Rightarrow> store" where
  "handle e (SendMessage now u r cont mtype) s = fst (send_message e now u r cont mtype s)"
| "handle e (PostMessage now u r cont mtype) s = fst (post_message e now u r cont mtype s)"
| "handle e (PostUpload now base u r file) s = fst (post_upload e now base u r file s)"
| "handle e (PostChatCreate retain now u r) s = fst (post_chat_create retain e now u r s)"
| "handle e (DeleteMessage now u i cid) s = fst (delete_message now u i cid s)"
| "handle e (DeleteRoute now u i) s = fst (delete_route now u i s)"
| "handle e (MarkMessageRead now i) s = fst (mark_message_read now i s)"
| "handle e (ChatsCleanup retain now) s = fst (chats_cleanup retain now s)"
| "handle e (Other w) s = apply_write w s"

text \<open>
  A step of a run is a request together with what happens during its suspensions: the
  store's fault on the insert, if any, and the two lists of writes. A run executes its
  steps one after the other.
\<close>

type_synonym step = "(error option \<times> db_write list \<times> db_write list) \<times> request"

fun do_step :: "step \<Rightarrow> store \<Rightarrow> store" where
  "do_step ((fault, ws1, ws2), req) s = handle (racing fault ws1 ws2) req s"

definition run :: "step list \<Rightarrow> store \<Rightarrow> store" where
  "run steps s = fold do_step steps s"

text \<open>The active chats with a given pair key.\<close>

definition active_chats :: "store \<Rightarrow> string \<Rightarrow> chat list" where
  "active_chats s k = filter (\<lambda>c. isActive c \<and> participantsKey c = k) (chats s)"

text \<open>
  What the store and the schema keep true of the chats: \<^verbatim>\<open>_id\<close> is a primary key drawn
  from the generator, \<^verbatim>\<open>participantsKey\<close> is unique, and every chat has passed the
  validation hook (two participants, sorted, and the key joined from them).
\<close>

definition wf_chat :: "chat \<Rightarrow> bool" where
  "wf_chat c = (length (participants c) = 2
                \<and> sort (participants c) = participants c
                \<and> participantsKey c = join ''_'' (participants c))"

text \<open>The name of an event.\<close>

fun event :: "emit \<Rightarrow> string" where
  "event (Emit _ name _) = name"

definition store_inv :: "store \<Rightarrow> bool" where
  "store_inv s = (distinct (map chat_id (chats s))
                  \<and> distinct (map participantsKey (chats s))
                  \<and> list_all (\<lambda>c. chat_id c < next_id s) (chats s)
                  \<and> list_all wf_chat (chats s))"

text \<open>An environment whose writes keep the store's indexes.\<close>

definition env_ok :: "env \<Rightarrow> bool" where
  "env_ok e = (\<forall>s. store_inv s \<longrightarrow> store_inv (before_save e s) \<and> store_inv (before_reread e s))"

section \<open>Example data\<close>

definition alice_id :: oid where
  "alice_id = ''65a1f0c2b3d4e5f6a7b8c901''"

definition bob_id :: oid where
  "bob_id = ''65a1f0c2b3d4e5f6a7b8c902''"

definition alice :: user where
  "alice = \<lparr>user_id = alice_id, username = ''alice'', avatar = ''a.png'', isOnline = False,
            lastSeen = 0\<rparr>"

definition bob :: user where
  "bob = \<lparr>user_id = bob_id, username = ''bob'', avatar = ''b.png'', isOnline = False,
          lastSeen = 0\<rparr>"

definition key_ab :: string where
  "key_ab = ''65a1f0c2b3d4e5f6a7b8c901_65a1f0c2b3d4e5f6a7b8c902''"

text \<open>Two users who have not written to each other.\<close>

definition two_users :: store where
  "two_users = \<lparr>users = [alice, bob], chats = [], messages = [], next_id = 0\<rparr>"

text \<open>
  The store after Alice sent ``hi'' at time 10 and Bob answered ``yo'' at time 20: chat
  0 with the messages 1 and 2, the second being the chat's last message.
\<close>

definition msg1 :: message where
  "msg1 = \<lparr>msg_id = 1, sender = alice_id, receiver = bob_id, content = utf16 ''hi'',
           messageType = ''text'', isRead = False, readAt = None, chatId = 0,
           isMockMessage = False, msg_createdAt = 10, msg_updatedAt = 10\<rparr>"

definition msg2 :: message where
  "msg2 = \<lparr>msg_id = 2, sender = bob_id, receiver = alice_id, content = utf16 ''yo'',
           messageType = ''text'', isRead = False, readAt = None, chatId = 0,
           isMockMessage = False, msg_createdAt = 20, msg_updatedAt = 20\<rparr>"

definition chat_ab :: chat where
  "chat_ab = \<lparr>chat_id = 0, participants = [alice_id, bob_id], participantsKey = key_ab,
              lastMessage = Some 2, lastMessageAt = Some 20, isActive = True,
              chat_createdAt = 10, chat_updatedAt = 20\<rparr>"

definition two_messages :: store where
  "two_messages = \<lparr>users = [alice, bob], chats = [chat_ab], messages = [msg1, msg2],
                   next_id = 3\<rparr>"

text \<open>A server on which nobody is connected.\<close>

definition idle_server :: server where
  "idle_server = \<lparr>db = two_users, activeUsers = Map.empty, sockets = []\<rparr>"

text \<open>A third identity, which has no user document, and the pair key of Alice with herself.\<close>

definition carol_id :: oid where
  "carol_id = ''65a1f0c2b3d4e5f6a7b8c903''"

definition key_aa :: string where
  "key_aa = ''65a1f0c2b3d4e5f6a7b8c901_65a1f0c2b3d4e5f6a7b8c901''"

text \<open>The store of the two messages after a sweep has deactivated the chat.\<close>

definition inactive_chat :: store where
  "inactive_chat = two_messages\<lparr>chats := [chat_ab\<lparr>isActive := False\<rparr>]\<rparr>"

text \<open>
  Three environments of a resolver. In \<open>lost_race\<close> Bob's own first message to Alice
  inserts their chat at time 9, between this handler's read and its insert; the store
  is then \<open>bob_first\<close>. In \<open>legacy_index\<close> the insert is refused with a duplicate-key
  error although no chat with the pair key is stored (the error of another unique
  index, such as the legacy index on \<^verbatim>\<open>participants\<close> that \<^verbatim>\<open>connectDB\<close> tries to drop).
  In \<open>store_down\<close> the insert fails with an error that has no code.
\<close>

definition lost_race :: env where
  "lost_race = racing None [W_chat_create 9 [bob_id, alice_id]] []"

definition legacy_index :: env where
  "legacy_index = racing (Some (MongoServerError 11000)) [] []"

definition store_down :: env where
  "store_down = racing (Some (Error ''connection closed'')) [] []"

definition chat_by_bob :: chat where
  "chat_by_bob = \<lparr>chat_id = 0, participants = [alice_id, bob_id], participantsKey = key_ab,
                  lastMessage = None, lastMessageAt = Some 9, isActive = True,
                  chat_createdAt = 9, chat_updatedAt = 9\<rparr>"

definition bob_first :: store where
  "bob_first = \<lparr>users = [alice, bob], chats = [chat_by_bob], messages = [], next_id = 1\<rparr>"

text \<open>
  A store with a duplicate from before the unique index: a second active chat of Alice
  and Bob, chat 5, which was created at 12, after chat 0, and whose only message 6 was
  written at 15, before the last message of chat 0. So chat 0 is the older chat with the
  more recent last message.
\<close>

definition chat_dup :: chat where
  "chat_dup = \<lparr>chat_id = 5, participants = [alice_id, bob_id], participantsKey = key_ab,
               lastMessage = Some 6, lastMessageAt = Some 15, isActive = True,
               chat_createdAt = 12, chat_updatedAt = 15\<rparr>"

definition msg6 :: message where
  "msg6 = \<lparr>msg_id = 6, sender = bob_id, receiver = alice_id, content = utf16 ''new'',
           messageType = ''text'', isRead = False, readAt = None, chatId = 5,
           isMockMessage = False, msg_createdAt = 15, msg_updatedAt = 15\<rparr>"

definition duplicated :: store where
  "duplicated = \<lparr>users = [alice, bob], chats = [chat_ab, chat_dup],
                 messages = [msg1, msg2, msg6], next_id = 7\<rparr>"

text \<open>
  The same pair of chats where chat 5 has never had a message: its \<^verbatim>\<open>lastMessageAt\<close> is
  \<^verbatim>\<open>null\<close>, as a deletion of its last message leaves it, and it was created at 30, after
  the last message of chat 0.
\<close>

definition chat_fresh :: chat where
  "chat_fresh = \<lparr>chat_id = 5, participants = [alice_id, bob_id], participantsKey = key_ab,
                 lastMessage = None, lastMessageAt = None, isActive = True,
                 chat_createdAt = 30, chat_updatedAt = 30\<rparr>"

definition duplicated_fresh :: store where
  "duplicated_fresh = \<lparr>users = [alice, bob], chats = [chat_ab, chat_fresh],
                       messages = [msg1, msg2], next_id = 7\<rparr>"

text \<open>
  Bob's identity as a client may write it, with the letters in upper case, and a string
  that passes \<^verbatim>\<open>isMongoId\<close> and is no ObjectId.
\<close>

definition bob_id_upper :: string where
  "bob_id_upper = ''65A1F0C2B3D4E5F6A7B8C902''"

definition prefixed_id :: string where
  "prefixed_id = ''0x65a1f0c2b3d4e5f6a7b8c9''"

text \<open>
  Alice's next message to Bob at time 30, typed with a no-break space before it and a
  space after it, and the store of the inactive chat after it has been sent. The file
  that she uploads instead, and the store after that.
\<close>

definition again :: ustring where
  "again = 160 # utf16 ''again'' @ [32]"

definition msg3 :: message where
  "msg3 = \<lparr>msg_id = 3, sender = alice_id, receiver = bob_id, content = utf16 ''again'',
           messageType = ''text'', isRead = False, readAt = None, chatId = 0,
           isMockMessage = False, msg_createdAt = 30, msg_updatedAt = 30\<rparr>"

definition chat_ab_sent :: chat where
  "chat_ab_sent = \<lparr>chat_id = 0, participants = [alice_id, bob_id], participantsKey = key_ab,
                   lastMessage = Some 3, lastMessageAt = Some 30, isActive = False,
                   chat_createdAt = 10, chat_updatedAt = 30\<rparr>"

definition sent_again :: store where
  "sent_again = \<lparr>users = [alice, bob], chats = [chat_ab_sent],
                  messages = [msg1, msg2, msg3], next_id = 4\<rparr>"

definition png :: upload_file where
  "png = \<lparr>filename = utf16 ''1.png'', mimetype = ''image/png''\<rparr>"

definition msg3_png :: message where
  "msg3_png = \<lparr>msg_id = 3, sender = alice_id, receiver = bob_id,
               content = utf16 ''http://h/uploads/messages/1.png'',
               messageType = ''image'', isRead = False, readAt = None, chatId = 0,
               isMockMessage = False, msg_createdAt = 30, msg_updatedAt = 30\<rparr>"

definition sent_png :: store where
  "sent_png = \<lparr>users = [alice, bob], chats = [chat_ab_sent],
                messages = [msg1, msg2, msg3_png], next_id = 4\<rparr>"

text \<open>
  A run from the empty store: Alice and Bob are registered; Alice sends her first
  message to Bob while Bob's own first message inserts their chat before her insert;
  then Bob sends by the route.
\<close>

definition first_contact :: "step list" where
  "first_contact =
     [((None, [], []), Other (W_users [alice, bob])),
      ((None, [W_chat_create 9 [bob_id, alice_id]], []),
       SendMessage 10 alice_id bob_id (utf16 ''hi'') None),
      ((None, [], []), PostMessage 20 bob_id alice_id (utf16 ''yo'') None)]"

section \<open>The pair key is symmetric\<close>

lemma sort_pair: "sort [a, b :: string] = [min a b, max a b]"
  by (auto simp: min_def max_def)

text \<open>
  Claim C6. The pair key is a function of its two arguments that does not depend on
  their order: the key for \<open>(a, b)\<close> equals the key for \<open>(b, a)\<close>, and both are the
  lexicographically smaller identity, the separator \<open>_\<close>, and the larger identity. The
  schema's validation hook gives a chat of the two participants, in either order, the
  same key.
\<close>

theorem participantsKey_of_commutes:
  "participantsKey_of a b = participantsKey_of b a
   \<and> participantsKey_of a b = min a b @ ''_'' @ max a b
   \<and> map_sum id participantsKey (pre_validate (c\<lparr>participants := [a, b]\<rparr>))
       = Inr (participantsKey_of a b)
   \<and> map_sum id participantsKey (pre_validate (c\<lparr>participants := [b, a]\<rparr>))
       = Inr (participantsKey_of a b)"
proof -
  have "sort [a, b] = sort [b, a]"
    by (simp only: sort_pair min.commute [of a b] max.commute [of a b])
  then show ?thesis
    by (simp add: participantsKey_of_def sort_pair pre_validate_def)
qed

section \<open>Lemmas on the list operations\<close>

lemmas example_defs =
  alice_id_def bob_id_def alice_def bob_def key_ab_def two_users_def msg1_def msg2_def
  chat_ab_def two_messages_def idle_server_def carol_id_def key_aa_def inactive_chat_def
  lost_race_def legacy_index_def store_down_def chat_dup_def msg6_def duplicated_def
  chat_fresh_def duplicated_fresh_def bob_id_upper_def prefixed_id_def utf16_def
  again_def msg3_def chat_ab_sent_def sent_again_def png_def msg3_png_def sent_png_def

lemmas lookup_defs =
  User_findById_def user_by_id_def castObjectId_def is_hex_def lower_hex_def
  isMongoId_def isHexadecimal_def isLength_max_def

lemma find_Some_holds: "find P xs = Some y \<Longrightarrow> y \<in> set xs \<and> P y"
  by (induction xs) (auto split: if_splits)

lemma find_update_first:
  "(\<And>x. P (f x) = P x) \<Longrightarrow> find P (update_first P f xs) = map_option f (find P xs)"
  by (induction xs) auto

lemma update_first_twice:
  "(\<And>x. P (f x) = P x) \<Longrightarrow>
   update_first P g (update_first P f xs) = update_first P (\<lambda>x. g (f x)) xs"
  by (induction xs) auto

lemma remove_first_find:
  "find P xs = Some m \<Longrightarrow> remove_first P xs = remove1 m xs"
  by (induction xs) (auto split: if_splits dest: find_Some_holds)

lemma remove_first_no_id:
  "distinct (map f xs) \<Longrightarrow> y \<in> set (remove_first (\<lambda>x. f x = i) xs) \<Longrightarrow> f y \<noteq> i"
  by (induction xs) (force split: if_splits)+

section \<open>Marking a message read\<close>

lemma update_first_split:
  "update_first (\<lambda>x. f x = i) g xs
     = takeWhile (\<lambda>x. f x \<noteq> i) xs
       @ (case dropWhile (\<lambda>x. f x \<noteq> i) xs of [] \<Rightarrow> [] | m # rest \<Rightarrow> g m # rest)"
  by (induction xs) auto

lemma update_first_again:
  assumes "\<And>x. P (f x) = P x" "\<And>x. g (f x) = h (f x)"
  shows "update_first P g (update_first P f xs) = update_first P h (update_first P f xs)"
  using assms by (simp add: update_first_twice)

lemma update_first_none: "find P xs = None \<Longrightarrow> update_first P g xs = xs"
  by (induction xs) (auto split: if_splits)

lemma mark_message_read_store:
  "fst (mark_message_read t i s)
     = s\<lparr>messages := update_first (\<lambda>x. msg_id x = i)
                          (\<lambda>x. x\<lparr>isRead := True, readAt := Some t, msg_updatedAt := t\<rparr>)
                          (messages s)\<rparr>"
proof (cases "find (\<lambda>m. msg_id m = i) (messages s)")
  case None
  then have "update_first (\<lambda>x. msg_id x = i) g (messages s) = messages s" for g
    by (rule update_first_none)
  with None show ?thesis
    by (simp add: mark_message_read_def Message_findByIdAndUpdate_read_def Message_findById_def)
next
  case (Some m)
  then show ?thesis
    by (simp add: mark_message_read_def Message_findByIdAndUpdate_read_def Message_findById_def)
qed

text \<open>
  Claim C5, as amended. Marking a message read a second time keeps the read flag and
  every other field of the message and of the store as the first call left them, but
  the read timestamp and the modification time become those of the second call. With
  \<open>s1\<close> the store after the call at \<open>t1\<close> and \<open>s2\<close> the store after the call at \<open>t2\<close> that
  follows it: \<open>s1\<close> is \<open>s\<close> where the first message with the identity \<open>i\<close> has the flag
  set and both times \<open>t1\<close>; \<open>s2\<close> is \<open>s1\<close> where that message has both times \<open>t2\<close> and
  nothing else is changed; \<open>s2\<close> is the store that the single call at \<open>t2\<close> leaves; the
  message found in \<open>s2\<close> is the original one with the flag set and both times \<open>t2\<close>; and
  the second call reports \<open>t2\<close> to the sender's room. The state after the second call is
  the state after the first only when both calls read the same clock value.
\<close>

theorem mark_message_read_last_wins:
  fixes s :: store and t1 t2 :: date and i :: nat
  defines "s1 \<equiv> fst (mark_message_read t1 i s)"
  defines "s2 \<equiv> fst (mark_message_read t2 i s1)"
  shows
  "s1 = s\<lparr>messages :=
            takeWhile (\<lambda>x. msg_id x \<noteq> i) (messages s)
            @ (case dropWhile (\<lambda>x. msg_id x \<noteq> i) (messages s) of
                 [] \<Rightarrow> []
               | m # rest \<Rightarrow> m\<lparr>isRead := True, readAt := Some t1, msg_updatedAt := t1\<rparr> # rest)\<rparr>
   \<and> s2 = s1\<lparr>messages :=
            takeWhile (\<lambda>x. msg_id x \<noteq> i) (messages s1)
            @ (case dropWhile (\<lambda>x. msg_id x \<noteq> i) (messages s1) of
                 [] \<Rightarrow> []
               | m # rest \<Rightarrow> m\<lparr>readAt := Some t2, msg_updatedAt := t2\<rparr> # rest)\<rparr>
   \<and> s2 = fst (mark_message_read t2 i s)
   \<and> Message_findById s2 i
       = map_option (\<lambda>m. m\<lparr>isRead := True, readAt := Some t2, msg_updatedAt := t2\<rparr>)
           (Message_findById s i)
   \<and> snd (mark_message_read t2 i s1)
       = (case Message_findById s i of
            None \<Rightarrow> []
          | Some m \<Rightarrow> [Emit (InRoom (UserRoom (sender m))) ''message_read''
                        (P_message_read i (Some t2))])"
proof -
  let ?P = "\<lambda>x. msg_id x = i"
  let ?f1 = "\<lambda>x::message. x\<lparr>isRead := True, readAt := Some t1, msg_updatedAt := t1\<rparr>"
  let ?f2 = "\<lambda>x::message. x\<lparr>isRead := True, readAt := Some t2, msg_updatedAt := t2\<rparr>"
  let ?h = "\<lambda>x::message. x\<lparr>readAt := Some t2, msg_updatedAt := t2\<rparr>"
  have m1: "messages s1 = update_first ?P ?f1 (messages s)"
    unfolding s1_def by (simp add: mark_message_read_store)
  have a: "s1 = s\<lparr>messages := update_first ?P ?f1 (messages s)\<rparr>"
    unfolding s1_def by (rule mark_message_read_store)
  have b: "s2 = s1\<lparr>messages := update_first ?P ?f2 (messages s1)\<rparr>"
    unfolding s2_def by (rule mark_message_read_store)
  have "update_first ?P ?f2 (update_first ?P ?f1 (messages s))
          = update_first ?P ?h (update_first ?P ?f1 (messages s))"
    by (rule update_first_again) simp_all
  then have b': "s2 = s1\<lparr>messages := update_first ?P ?h (messages s1)\<rparr>"
    using b m1 by simp
  have "update_first ?P ?f2 (update_first ?P ?f1 (messages s)) = update_first ?P ?f2 (messages s)"
    by (simp add: update_first_twice)
  then have c: "s2 = fst (mark_message_read t2 i s)"
    using a b m1 by (simp add: mark_message_read_store)
  have f1: "Message_findById s1 i = map_option ?f1 (Message_findById s i)"
    by (simp add: m1 Message_findById_def find_update_first)
  have d: "Message_findById s2 i = map_option ?f2 (Message_findById s i)"
    by (simp add: c mark_message_read_store Message_findById_def find_update_first)
  have e: "snd (mark_message_read t2 i s1)
       = (case Message_findById s i of
            None \<Rightarrow> []
          | Some m \<Rightarrow> [Emit (InRoom (UserRoom (sender m))) ''message_read''
                        (P_message_read i (Some t2))])"
  proof (cases "Message_findById s i")
    case None
    with f1 show ?thesis
      by (simp add: mark_message_read_def Message_findByIdAndUpdate_read_def)
  next
    case (Some m)
    then have "msg_id m = i"
      by (auto simp: Message_findById_def dest: find_Some_holds)
    with Some f1 show ?thesis
      by (simp add: mark_message_read_def Message_findByIdAndUpdate_read_def)
  qed
  show ?thesis
    using a b' c d e by (simp only: update_first_split [where f = msg_id] simp_thms)
qed

text \<open>
  Claim C5 as stated fails: message 1 of the example store, marked read at time 30 and
  again at time 40, has \<open>readAt = 30\<close> after the first call and \<open>readAt = 40\<close> after the
  second, so the two states differ.
\<close>

theorem mark_message_read_twice_counterexample:
  "map readAt (messages (fst (mark_message_read 30 1 two_messages))) = [Some 30, None]
   \<and> map readAt (messages (fst (mark_message_read 40 1 (fst (mark_message_read 30 1 two_messages)))))
       = [Some 40, None]
   \<and> fst (mark_message_read 40 1 (fst (mark_message_read 30 1 two_messages)))
       \<noteq> fst (mark_message_read 30 1 two_messages)"
  by (simp add: mark_message_read_def Message_findByIdAndUpdate_read_def Message_findById_def
      example_defs)

section \<open>Going offline\<close>

text \<open>
  Claim C7, as amended. Every disconnect of a socket removes the user's entry from
  \<^verbatim>\<open>activeUsers\<close>, clears the user's online flag in the store and broadcasts
  \<^verbatim>\<open>user_offline\<close> to the other sockets, whether or not other sockets of that user are
  still connected.
\<close>

theorem disconnect_always_offline:
  "snd (disconnect now sid u srv)
     = [Emit OtherSockets ''user_offline'' (P_user_offline (user_id u) (username u))]
   \<and> activeUsers (fst (disconnect now sid u srv)) (user_id u) = None
   \<and> map_option isOnline (user_by_id (db (fst (disconnect now sid u srv))) (user_id u))
      = map_option (\<lambda>x. False) (user_by_id (db srv) (user_id u))"
  by (simp add: disconnect_def User_set_presence_def user_by_id_def find_update_first
      option.map_comp comp_def)

text \<open>
  Claim C7 as stated fails: Alice connects with the sockets 1 and 2 and socket 1
  disconnects. Socket 2 is still connected, yet her online flag is cleared and
  \<^verbatim>\<open>user_offline\<close> is broadcast.
\<close>

theorem disconnect_one_of_two_counterexample:
  "sessions_of (fst (connection 20 2 alice (fst (connection 10 1 alice idle_server)))) alice_id
     = [1, 2]
   \<and> sessions_of (fst (disconnect 30 1 alice
        (fst (connection 20 2 alice (fst (connection 10 1 alice idle_server)))))) alice_id = [2]
   \<and> map_option isOnline (user_by_id (db (fst (disconnect 30 1 alice
        (fst (connection 20 2 alice (fst (connection 10 1 alice idle_server))))))) alice_id)
       = Some False
   \<and> snd (disconnect 30 1 alice
        (fst (connection 20 2 alice (fst (connection 10 1 alice idle_server)))))
       = [Emit OtherSockets ''user_offline'' (P_user_offline alice_id ''alice'')]"
  by (simp add: connection_def disconnect_def sessions_of_def User_set_presence_def
      user_by_id_def example_defs)

section \<open>Deleting a message\<close>

lemma Chat_save_messages:
  "Chat_save now s c = Inr (s', c') \<Longrightarrow> messages s' = messages s"
  by (auto simp: Chat_save_def Let_def split: sum.splits option.splits if_splits)

lemma update_lastMessage_messages:
  "update_lastMessage now s cid i = Inr s' \<Longrightarrow> messages s' = messages s"
  by (auto simp: update_lastMessage_def split: option.splits if_splits list.splits sum.splits
      dest: Chat_save_messages)

text \<open>
  Claim C4. A delete request for a stored message by a user who is not its sender fails
  with the authorization error (the socket's \<^verbatim>\<open>error\<close> event, the route's status 403)
  and leaves the store as it was, message and chats included. When the requester is the
  sender the message is removed from the collection, on both paths.
\<close>

theorem delete_requires_sender:
  assumes "Message_findById s i = Some m"
  shows "(sender m \<noteq> u \<longrightarrow>
            delete_message now u i cid s
              = (s, [Emit ThisSocket ''error'' (P_error ''Not authorized to delete this message'')])
          \<and> delete_route now u i s = (s, Response 403 ''Not authorized to delete this message''))
       \<and> (sender m = u \<longrightarrow>
            messages (fst (delete_message now u i cid s)) = remove1 m (messages s)
          \<and> messages (fst (delete_route now u i s)) = remove1 m (messages s))"
proof -
  have del: "messages (Message_deleteOne s i) = remove1 m (messages s)"
    using assms by (simp add: Message_deleteOne_def Message_findById_def remove_first_find)
  have sock: "messages (fst (delete_message now u i cid s)) = remove1 m (messages s)"
    if "sender m = u"
    using assms that del
    by (auto simp: delete_message_def Let_def split: sum.splits dest: update_lastMessage_messages)
  have route: "messages (fst (delete_route now u i s)) = remove1 m (messages s)"
    if "sender m = u"
    using assms that del
    by (auto simp: delete_route_def Let_def split: sum.splits dest: update_lastMessage_messages)
  show ?thesis
    using assms sock route by (simp add: delete_message_def delete_route_def)
qed

text \<open>
  In the example store message 2 is Bob's: Alice's request is refused and changes
  nothing, Bob's request removes the message.
\<close>

theorem delete_requires_sender_witness:
  "Message_findById two_messages 2 = Some msg2
   \<and> sender msg2 \<noteq> alice_id
   \<and> delete_message 30 alice_id 2 0 two_messages
       = (two_messages,
          [Emit ThisSocket ''error'' (P_error ''Not authorized to delete this message'')])
   \<and> delete_route 30 alice_id 2 two_messages
       = (two_messages, Response 403 ''Not authorized to delete this message'')
   \<and> sender msg2 = bob_id
   \<and> messages (fst (delete_message 30 bob_id 2 0 two_messages)) = [msg1]
   \<and> messages (fst (delete_route 30 bob_id 2 two_messages)) = [msg1]"
proof -
  have h: "Message_findById two_messages 2 = Some msg2"
    by (simp add: Message_findById_def two_messages_def msg1_def msg2_def)
  have a: "sender msg2 \<noteq> alice_id" and b: "sender msg2 = bob_id"
    by (simp_all add: msg2_def alice_id_def bob_id_def)
  have r: "remove1 msg2 (messages two_messages) = [msg1]"
    by (simp add: two_messages_def msg1_def msg2_def)
  show ?thesis
    using h a b r delete_requires_sender [OF h, of alice_id 30 0]
      delete_requires_sender [OF h, of bob_id 30 0]
    by simp
qed

text \<open>
  The block that repoints the chat runs after the message has been removed. Populating
  \<^verbatim>\<open>lastMessage\<close> then finds no document for the removed message, so the guard
  \<^verbatim>\<open>chat.lastMessage && chat.lastMessage._id.toString() === id\<close> is false whenever the
  removed message was the chat's last one, and it is false as well when it was not: with
  message identities unique, no delete changes a chat.
\<close>

lemma update_lastMessage_after_delete:
  assumes "distinct (map msg_id (messages s))"
  shows "update_lastMessage now (Message_deleteOne s i) cid i = Inr (Message_deleteOne s i)"
proof -
  have "msg_id lm \<noteq> i" if "populate_lastMessage (Message_deleteOne s i) c = Some lm" for c lm
    using that assms
    by (auto simp: populate_lastMessage_def Message_findById_def Message_deleteOne_def
        split: option.splits dest!: find_Some_holds dest: remove_first_no_id)
  then show ?thesis
    by (auto simp: update_lastMessage_def split: option.splits)
qed

lemma delete_never_touches_chats:
  assumes "distinct (map msg_id (messages s))"
  shows "chats (fst (delete_route now u i s)) = chats s"
    and "chats (fst (delete_message now u i cid s)) = chats s"
  using update_lastMessage_after_delete [OF assms]
  by (auto simp: delete_route_def delete_message_def Let_def Message_deleteOne_def
      split: option.splits)

text \<open>
  Claim C3, on the example store: chat 0 holds the messages 1 (created at 10) and 2
  (created at 20) and records message 2 as its last message. Bob deletes message 2, by
  the route and by the socket event. Message 1 survives, and the claim asks for the
  pointer to move to it with timestamp 10; the chat still points at the deleted message
  2 with timestamp 20.
\<close>

theorem delete_last_message_leaves_pointer:
  "map msg_id (messages (fst (delete_route 30 bob_id 2 two_messages))) = [1]
   \<and> map lastMessage (chats (fst (delete_route 30 bob_id 2 two_messages))) = [Some 2]
   \<and> map lastMessageAt (chats (fst (delete_route 30 bob_id 2 two_messages))) = [Some 20]
   \<and> map msg_id (messages (fst (delete_message 30 bob_id 2 0 two_messages))) = [1]
   \<and> map lastMessage (chats (fst (delete_message 30 bob_id 2 0 two_messages))) = [Some 2]
   \<and> map lastMessageAt (chats (fst (delete_message 30 bob_id 2 0 two_messages))) = [Some 20]"
  by (simp add: delete_route_def delete_message_def Message_findById_def Message_deleteOne_def
      update_lastMessage_def Chat_findById_def populate_lastMessage_def example_defs)

section \<open>The unique index is kept by every run\<close>

lemma store_inv_same_chats:
  "store_inv s \<Longrightarrow> chats s' = chats s \<Longrightarrow> next_id s \<le> next_id s' \<Longrightarrow> store_inv s'"
  by (auto simp: store_inv_def list_all_iff)

lemma pre_validate_wf: "pre_validate c = Inr c' \<Longrightarrow> wf_chat c' \<and> chat_id c' = chat_id c"
  by (auto simp: pre_validate_def wf_chat_def Let_def sorted_sort_id split: if_splits)

lemma store_inv_Chat_create:
  assumes "store_inv s" "Chat_create fault now s ps = Inr (s', c)"
  shows "store_inv s'"
proof -
  from assms(2) obtain c0 where
    c: "pre_validate c0 = Inr c" "chat_id c0 = next_id s"
    and new: "\<not> list_ex (\<lambda>d. participantsKey d = participantsKey c) (chats s)"
    and s': "s' = s\<lparr>chats := chats s @ [c], next_id := Suc (next_id s)\<rparr>"
    by (auto simp: Chat_create_def split: option.splits sum.splits if_splits)
  from c have "wf_chat c" "chat_id c = next_id s"
    using pre_validate_wf by fastforce+
  with assms(1) new s' show ?thesis
    by (auto simp: store_inv_def list_all_iff list_ex_iff less_Suc_eq)
qed

lemma store_inv_Chat_save:
  assumes "store_inv s" "Chat_save now s c = Inr (s', c')"
  shows "store_inv s'"
proof -
  from assms(2) obtain c1 stored where
    c: "pre_validate c = Inr c1"
    and st: "find (\<lambda>d. chat_id d = chat_id c1) (chats s) = Some stored"
    and new: "participantsKey c1 = participantsKey stored
              \<or> \<not> list_ex (\<lambda>d. chat_id d \<noteq> chat_id c1 \<and> participantsKey d = participantsKey c1)
                     (chats s)"
    and s': "s' = s\<lparr>chats := map (\<lambda>d. if chat_id d = chat_id c1
                                        then c1\<lparr>chat_updatedAt := now\<rparr> else d) (chats s)\<rparr>"
    by (auto simp: Chat_save_def split: sum.splits option.splits if_splits)
  let ?f = "\<lambda>d. if chat_id d = chat_id c1 then c1\<lparr>chat_updatedAt := now\<rparr> else d"
  have wf: "wf_chat (c1\<lparr>chat_updatedAt := now\<rparr>)"
    using pre_validate_wf [OF c] by (simp add: wf_chat_def)
  define cs where "cs = map ?f (chats s)"
  have s'': "chats s' = cs" "next_id s' = next_id s"
    by (simp_all add: s' cs_def)
  have "map chat_id cs = map chat_id (chats s)"
    unfolding cs_def by (induction "chats s") auto
  then have ids: "distinct (map chat_id cs)"
    using assms(1) by (simp add: store_inv_def)
  have inj: "inj_on participantsKey (set (chats s))"
    using assms(1) by (simp add: store_inv_def distinct_map)
  have inj_id: "inj_on chat_id (set (chats s))"
    using assms(1) by (simp add: store_inv_def distinct_map)
  have stored: "stored \<in> set (chats s)" "chat_id stored = chat_id c1"
    using find_Some_holds [OF st] by simp_all
  have only: "x = stored" if "x \<in> set (chats s)" "chat_id x = chat_id c1" for x
    using inj_id stored that by (simp add: inj_on_def)
  have "inj_on (\<lambda>d. participantsKey (?f d)) (set (chats s))"
  proof (rule inj_onI)
    fix x y assume xy: "x \<in> set (chats s)" "y \<in> set (chats s)"
      and eq: "participantsKey (?f x) = participantsKey (?f y)"
    show "x = y"
    proof (cases "chat_id x = chat_id c1")
      case True
      note tx = this
      show ?thesis
      proof (cases "chat_id y = chat_id c1")
        case True
        with tx xy have "x = stored" "y = stored" by (simp_all add: only)
        then show ?thesis by simp
      next
        case False
        from tx xy have x: "x = stored" by (simp add: only)
        from new show ?thesis
        proof
          assume "participantsKey c1 = participantsKey stored"
          with False tx eq x have "participantsKey x = participantsKey y" by simp
          with inj xy have "x = y" by (simp add: inj_on_def)
          with False tx show ?thesis by simp
        next
          assume "\<not> list_ex (\<lambda>d. chat_id d \<noteq> chat_id c1 \<and> participantsKey d = participantsKey c1)
                     (chats s)"
          with False tx eq xy show ?thesis by (auto simp: list_ex_iff)
        qed
      qed
    next
      case False
      note fx = this
      show ?thesis
      proof (cases "chat_id y = chat_id c1")
        case True
        from True xy have y: "y = stored" by (simp add: only)
        from new show ?thesis
        proof
          assume "participantsKey c1 = participantsKey stored"
          with True fx eq y have "participantsKey x = participantsKey y" by simp
          with inj xy have "x = y" by (simp add: inj_on_def)
          with True fx show ?thesis by simp
        next
          assume "\<not> list_ex (\<lambda>d. chat_id d \<noteq> chat_id c1 \<and> participantsKey d = participantsKey c1)
                     (chats s)"
          with True fx eq xy show ?thesis by (auto simp: list_ex_iff)
        qed
      next
        case False
        with fx eq inj xy show ?thesis by (simp add: inj_on_def)
      qed
    qed
  qed
  then have keys: "distinct (map participantsKey cs)"
    using assms(1) by (simp add: distinct_map store_inv_def comp_def cs_def)
  have rest: "list_all (\<lambda>d. chat_id d < next_id s) cs" "list_all wf_chat cs"
    using assms(1) wf by (auto simp: store_inv_def list_all_iff cs_def)
  show ?thesis
    using ids keys rest unfolding store_inv_def s'' by simp
qed

lemma store_inv_Message_save:
  "store_inv s \<Longrightarrow> Message_save now s a b cont mt cid = Inr (s', m) \<Longrightarrow> store_inv s'"
  by (rule store_inv_same_chats [of s])
     (auto simp: Message_save_def split: sum.splits option.splits)

lemma store_inv_deactivate:
  assumes "store_inv s"
  shows "store_inv (Chat_updateMany_deactivate now ids s)"
proof -
  let ?f = "\<lambda>c. if chat_id c \<in> set ids then c\<lparr>isActive := False, chat_updatedAt := now\<rparr> else c"
  define cs where "cs = map ?f (chats s)"
  have s': "chats (Chat_updateMany_deactivate now ids s) = cs"
    "next_id (Chat_updateMany_deactivate now ids s) = next_id s"
    by (simp_all add: Chat_updateMany_deactivate_def cs_def)
  have "map chat_id cs = map chat_id (chats s)" "map participantsKey cs = map participantsKey (chats s)"
    unfolding cs_def by (induction "chats s") auto
  moreover have "list_all (\<lambda>d. chat_id d < next_id s) cs" "list_all wf_chat cs"
    using assms by (auto simp: store_inv_def list_all_iff cs_def wf_chat_def)
  ultimately show ?thesis
    using assms unfolding store_inv_def s' by simp
qed

lemma update_lastMessage_inv:
  "store_inv s \<Longrightarrow> update_lastMessage now s cid i = Inr s' \<Longrightarrow> store_inv s'"
  by (auto simp: update_lastMessage_def split: option.splits if_splits list.splits sum.splits
      dest: store_inv_Chat_save)

lemma store_inv_Message_deleteOne: "store_inv s \<Longrightarrow> store_inv (Message_deleteOne s i)"
  by (rule store_inv_same_chats [of s]) (auto simp: Message_deleteOne_def)

lemma store_inv_delete_message: "store_inv s \<Longrightarrow> store_inv (fst (delete_message now u i cid s))"
  by (auto simp: delete_message_def Let_def split: option.splits sum.splits
      intro: store_inv_Message_deleteOne dest: update_lastMessage_inv [OF store_inv_Message_deleteOne])

lemma store_inv_delete_route: "store_inv s \<Longrightarrow> store_inv (fst (delete_route now u i s))"
  by (auto simp: delete_route_def Let_def split: option.splits sum.splits
      intro: store_inv_Message_deleteOne dest: update_lastMessage_inv [OF store_inv_Message_deleteOne])

lemma store_inv_read: "store_inv s \<Longrightarrow> store_inv (fst (Message_findByIdAndUpdate_read now s i))"
  by (rule store_inv_same_chats [of s]) (auto simp: Message_findByIdAndUpdate_read_def split: option.splits)

lemma store_inv_mark_message_read: "store_inv s \<Longrightarrow> store_inv (fst (mark_message_read now i s))"
  using store_inv_read [of s now i]
  by (auto simp: mark_message_read_def split: prod.splits option.splits)

lemma store_inv_move: "store_inv s \<Longrightarrow> store_inv (Message_updateMany_chatId now ids keep s)"
  by (rule store_inv_same_chats [of s]) (auto simp: Message_updateMany_chatId_def)

lemma store_inv_presence: "store_inv s \<Longrightarrow> store_inv (User_set_presence s i b now)"
  by (rule store_inv_same_chats [of s]) (auto simp: User_set_presence_def)

lemma merge_group_chats:
  "merge_group now acc g = (s', d', n') \<Longrightarrow> chats s' = chats (fst acc) \<and> next_id s' = next_id (fst acc)"
  by (cases acc; cases g)
     (auto simp: Message_updateMany_chatId_def split: if_splits list.splits)

lemma foldl_merge_group_chats:
  "foldl (merge_group now) acc gs = (s', d', n') \<Longrightarrow> chats s' = chats (fst acc) \<and> next_id s' = next_id (fst acc)"
proof (induction gs arbitrary: acc)
  case Nil
  then show ?case by auto
next
  case (Cons g gs)
  obtain s1 d1 n1 where m: "merge_group now acc g = (s1, d1, n1)"
    by (cases "merge_group now acc g") auto
  with Cons.prems have "foldl (merge_group now) (s1, d1, n1) gs = (s', d', n')" by simp
  from Cons.IH [OF this] merge_group_chats [OF m] show ?case by simp
qed

lemma store_inv_chats_cleanup: 
  assumes "store_inv s" shows "store_inv (fst (chats_cleanup retain now s))"
proof -
  obtain s1 d1 n1 where f: "foldl (merge_group now) (s, map chat_id (filter (hasNullParticipant retain s) (filter isActive (chats s))), 0)
       (foldl (\<lambda>g c. group_push c g) [] (filter (\<lambda>c. \<not> hasNullParticipant retain s c) (filter isActive (chats s)))) = (s1, d1, n1)"
    using prod_cases3 by blast
  from foldl_merge_group_chats [OF f] assms have "store_inv s1"
    by (auto intro: store_inv_same_chats [of s])
  then show ?thesis
    using f by (auto simp: chats_cleanup_def Let_def intro: store_inv_deactivate)
qed

lemma store_inv_users: "store_inv s \<Longrightarrow> store_inv (s\<lparr>users := us\<rparr>)"
  by (simp add: store_inv_def)

lemma store_inv_apply_write: "store_inv s \<Longrightarrow> store_inv (apply_write w s)"
  by (cases w)
     (auto split: sum.splits
       intro: store_inv_deactivate store_inv_Message_deleteOne store_inv_read store_inv_move
         store_inv_presence store_inv_users
       dest: store_inv_Chat_create store_inv_Chat_save store_inv_Message_save)

lemma store_inv_run_writes: "store_inv s \<Longrightarrow> store_inv (run_writes ws s)"
  unfolding run_writes_def by (induction ws arbitrary: s) (auto intro: store_inv_apply_write)

lemma env_ok_racing: "env_ok (racing fault ws1 ws2)"
  by (simp add: env_ok_def racing_def store_inv_run_writes)

lemma store_inv_resolve_chat:
  "store_inv s \<Longrightarrow> env_ok e \<Longrightarrow> resolve_chat e now s a b = (s', r) \<Longrightarrow> store_inv s'"
  by (auto simp: resolve_chat_def Let_def env_ok_def split: option.splits sum.splits if_splits
      dest: store_inv_Chat_create)

lemma store_inv_resolve_chat_create:
  "store_inv s \<Longrightarrow> env_ok e \<Longrightarrow> resolve_chat_create e now s a b = (s', r) \<Longrightarrow> store_inv s'"
  by (auto simp: resolve_chat_create_def Let_def env_ok_def split: option.splits sum.splits if_splits
      dest: store_inv_Chat_create)


lemma store_inv_send_message:
  assumes "store_inv s" "env_ok e"
  shows "store_inv (fst (send_message e now u r cont mt s))"
proof (cases "\<exists>ru. User_findById s r = Inr (Some ru)")
  case False
  with assms show ?thesis
    by (auto simp: send_message_def split: sum.splits option.splits)
next
  case True
  then obtain ru where Some: "User_findById s r = Inr (Some ru)" by blast
  obtain s1 res where r: "resolve_chat e now s u r = (s1, res)"
    by (cases "resolve_chat e now s u r") auto
  have s1: "store_inv s1" using store_inv_resolve_chat [OF assms r] .
  show ?thesis
  proof (cases res)
    case (Inl x)
    with Some r s1 show ?thesis by (simp add: send_message_def)
  next
    case (Inr chat)
    with Some r s1 show ?thesis
      by (auto simp: send_message_def split: sum.splits prod.splits option.splits
          dest: store_inv_Message_save store_inv_Chat_save)
  qed
qed

lemma store_inv_post_message:
  assumes "store_inv s" "env_ok e"
  shows "store_inv (fst (post_message e now u r cont mt s))"
proof (cases "\<exists>ru. User_findById s r = Inr (Some ru)")
  case False
  with assms show ?thesis
    by (auto simp: post_message_def split: sum.splits option.splits)
next
  case True
  then obtain ru where Some: "User_findById s r = Inr (Some ru)" by blast
  obtain s1 res where r: "resolve_chat e now s u r = (s1, res)"
    by (cases "resolve_chat e now s u r") auto
  have s1: "store_inv s1" using store_inv_resolve_chat [OF assms r] .
  show ?thesis
  proof (cases res)
    case (Inl x)
    with Some r s1 assms show ?thesis by (simp add: post_message_def)
  next
    case (Inr chat)
    with Some r s1 assms show ?thesis
      by (auto simp: post_message_def split: sum.splits prod.splits option.splits
          dest: store_inv_Message_save store_inv_Chat_save)
  qed
qed

lemma store_inv_post_upload:
  assumes "store_inv s" "env_ok e"
  shows "store_inv (fst (post_upload e now base u ro file s))"
proof (cases ro)
  case None
  with assms show ?thesis by (simp add: post_upload_def)
next
  case (Some r)
  note ro = this
  show ?thesis
  proof (cases "\<exists>ru. User_findById s r = Inr (Some ru)")
    case False
    with assms ro show ?thesis
      by (auto simp: post_upload_def split: sum.splits option.splits)
  next
    case True
    then obtain ru where Some: "User_findById s r = Inr (Some ru)" by blast
    obtain s1 res where r: "resolve_chat e now s u r = (s1, res)"
      by (cases "resolve_chat e now s u r") auto
    have s1: "store_inv s1" using store_inv_resolve_chat [OF assms r] .
    show ?thesis
    proof (cases res)
      case (Inl x)
      with Some r s1 assms ro show ?thesis by (simp add: post_upload_def)
    next
      case (Inr chat)
      with Some r s1 assms ro show ?thesis
        by (auto simp: post_upload_def split: sum.splits prod.splits option.splits
            dest: store_inv_Message_save store_inv_Chat_save)
    qed
  qed
qed

lemma store_inv_post_chat_create:
  assumes "store_inv s" "env_ok e"
  shows "store_inv (fst (post_chat_create retain e now u r s))"
proof -
  obtain s1 res where r: "resolve_chat_create e now s u r = (s1, res)"
    by (cases "resolve_chat_create e now s u r") auto
  have s1: "store_inv s1" using store_inv_resolve_chat_create [OF assms r] .
  with r assms show ?thesis
    by (auto simp: post_chat_create_def split: sum.splits option.splits)
qed

lemma store_inv_handle: "store_inv s \<Longrightarrow> env_ok e \<Longrightarrow> store_inv (handle e req s)"
  by (cases req)
     (simp_all add: store_inv_send_message store_inv_post_message store_inv_post_upload
       store_inv_post_chat_create store_inv_delete_message store_inv_delete_route
       store_inv_mark_message_read store_inv_chats_cleanup store_inv_apply_write)

lemma store_inv_do_step: "store_inv s \<Longrightarrow> store_inv (do_step st s)"
  by (cases "(st, s)" rule: do_step.cases) (simp add: store_inv_handle env_ok_racing)

lemma store_inv_run: "store_inv s \<Longrightarrow> store_inv (run steps s)"
  unfolding run_def by (induction steps arbitrary: s) (auto intro: store_inv_do_step)

lemma store_inv_empty: "store_inv empty_store"
  by (simp add: store_inv_def empty_store_def)

lemma distinct_filter_key:
  "distinct (map f xs) \<Longrightarrow> length (filter (\<lambda>x. P x \<and> f x = k) xs) \<le> Suc 0"
  by (induction xs) (auto simp: filter_empty_conv image_iff)

text \<open>
  In the run \<open>first_contact\<close> both messages are in chat 0, the only chat.
\<close>

lemma first_contact_one_chat:
  "map chat_id (active_chats (run first_contact empty_store) key_ab) = [0]
   \<and> map chatId (messages (run first_contact empty_store)) = [0, 0]
   \<and> length (chats (run first_contact empty_store)) = 1"
  by (simp add: first_contact_def run_def racing_def run_writes_def empty_store_def active_chats_def
      send_message_def post_message_def lookup_defs resolve_chat_def
      participantsKey_of_def Chat_findOne_key_def Chat_create_def pre_validate_def Message_save_def
      Message_validate_def trim_def is_space_def Chat_save_def populate_user_def utf16_def
      Let_def alice_id_def bob_id_def alice_def bob_def key_ab_def)

text \<open>
  Claim C1. Start from the empty store and let any sequence of requests run: socket
  sends, REST sends, uploads, explicit creations, deletions, read marks, sweeps and
  single writes (the registration and removal of users among them), each resolver with
  any store fault on its insert and any writes of other handlers between its first read
  and its insert and between a failed insert and its second read. In the store that results, at most one active chat has the pair key
  of any two users \<open>a\<close> and \<open>b\<close>. The reason is the unique index: an insert of a chat
  whose key is already stored fails, and no other write changes a key to a stored one.
\<close>

theorem one_active_chat_per_pair_key:
  "length (active_chats (run steps empty_store) (participantsKey_of a b)) \<le> 1"
  using store_inv_run [OF store_inv_empty, of steps]
  by (simp add: active_chats_def store_inv_def distinct_filter_key)

section \<open>Sending into an existing chat\<close>




lemma isLength_max_le: "length x \<le> n \<Longrightarrow> isLength_max n x"
  by (simp add: isLength_max_def)















text \<open>
  A content of white space only, here a single no-break space, passes the check of the
  body and is refused by the schema after trimming: nothing is stored.
\<close>

lemma blank_content_is_refused:
  "send_message quiet 30 alice_id bob_id [160] None inactive_chat
     = (inactive_chat, [Emit ThisSocket ''error'' (P_error ''Error sending message'')])
   \<and> post_message quiet 30 alice_id bob_id [160] None inactive_chat
     = (inactive_chat, Response 500 ''Server error while sending message'')"
  by (simp add: send_message_def post_message_def lookup_defs resolve_chat_def
      participantsKey_of_def Chat_findOne_key_def Message_save_def Message_validate_def
      trim_def is_space_def Let_def example_defs)

section \<open>What the resolver checks\<close>

text \<open>
  Claim C8, as amended. Chat resolution checks the receiver only. A request whose
  receiver identifier does not resolve to a user, because the lookup finds no user or
  because the identifier is no ObjectId and the lookup throws, is rejected and leaves
  the store as it was, so no chat and no message is created. The socket answers with
  the event \<^verbatim>\<open>error\<close>: ``Receiver not found'' when no user is found, ``Error sending
  message'' when the lookup throws. A route answers 400 when the request fails the
  checks made before the lookup, 404 when no user is found, and 500 when the lookup
  throws. The sender's identity is not looked up, and equal identities are not
  rejected.
\<close>

theorem receiver_must_exist:
  assumes "User_findById s r \<in> {Inl CastError, Inr None}"
  shows "send_message e now u r cont mt s
           = (s, [Emit ThisSocket ''error''
                    (P_error (if User_findById s r = Inr None then ''Receiver not found''
                              else ''Error sending message''))])
       \<and> post_message e now u r cont mt s
           = (s, if \<not> isMongoId r \<or> cont = [] \<or> \<not> isLength_max 1000 cont
                 then Response 400 ''Validation failed''
                 else if User_findById s r = Inr None then Response 404 ''Receiver not found''
                 else Response 500 ''Server error while sending message'')
       \<and> post_upload e now base u (Some r) file s
           = (s, if r = [] then Response 400 ''receiverId is required''
                 else if User_findById s r = Inr None then Response 404 ''Receiver not found''
                 else Response 500 ''Server error while uploading message'')
       \<and> post_chat_create retain e now u r s
           = (s, if \<not> isMongoId r then Response 400 ''Validation failed''
                 else if User_findById s r = Inr None then Response 404 ''Receiver not found''
                 else Response 500 ''Server error while creating chat'')"
proof -
  define found where "found = User_findById s r"
  have f: "found = Inr None \<or> found = Inl CastError"
    using assms by (auto simp: found_def)
  have 1: "send_message e now u r cont mt s
           = (s, [Emit ThisSocket ''error''
                    (P_error (if found = Inr None then ''Receiver not found''
                              else ''Error sending message''))])"
    using f by (auto simp: send_message_def found_def [symmetric])
  have 2: "post_message e now u r cont mt s
           = (s, if \<not> isMongoId r \<or> cont = [] \<or> \<not> isLength_max 1000 cont
                 then Response 400 ''Validation failed''
                 else if found = Inr None then Response 404 ''Receiver not found''
                 else Response 500 ''Server error while sending message'')"
    using f by (cases "\<not> isMongoId r \<or> cont = [] \<or> \<not> isLength_max 1000 cont")
      (auto simp: post_message_def found_def [symmetric])
  have 3: "post_upload e now base u (Some r) file s
           = (s, if r = [] then Response 400 ''receiverId is required''
                 else if found = Inr None then Response 404 ''Receiver not found''
                 else Response 500 ''Server error while uploading message'')"
    using f by (cases "r = []") (auto simp: post_upload_def found_def [symmetric])
  have 4: "post_chat_create retain e now u r s
           = (s, if \<not> isMongoId r then Response 400 ''Validation failed''
                 else if found = Inr None then Response 404 ''Receiver not found''
                 else Response 500 ''Server error while creating chat'')"
    using f by (cases "isMongoId r") (auto simp: post_chat_create_def found_def [symmetric])
  show ?thesis
    using 1 2 3 4 unfolding found_def by blast
qed

text \<open>
  Carol has no user document: Alice's requests to her are answered with ``Receiver not
  found''. An identifier with the prefix \<^verbatim>\<open>0x\<close> passes the check of the body and makes
  the lookup throw: the requests are answered with the handler's error. A string that
  is no identifier at all is stopped by the check of the body. Nothing is written.
\<close>

theorem receiver_must_exist_witness:
  "User_findById two_users carol_id = Inr None
   \<and> send_message quiet 10 alice_id carol_id (utf16 ''hi'') None two_users
       = (two_users, [Emit ThisSocket ''error'' (P_error ''Receiver not found'')])
   \<and> post_message quiet 10 alice_id carol_id (utf16 ''hi'') None two_users
       = (two_users, Response 404 ''Receiver not found'')
   \<and> post_upload quiet 10 (utf16 ''http://h'') alice_id (Some carol_id) None two_users
       = (two_users, Response 404 ''Receiver not found'')
   \<and> post_chat_create False quiet 10 alice_id carol_id two_users
       = (two_users, Response 404 ''Receiver not found'')
   \<and> User_findById two_users prefixed_id = Inl CastError
   \<and> isMongoId prefixed_id
   \<and> send_message quiet 10 alice_id prefixed_id (utf16 ''hi'') None two_users
       = (two_users, [Emit ThisSocket ''error'' (P_error ''Error sending message'')])
   \<and> post_message quiet 10 alice_id prefixed_id (utf16 ''hi'') None two_users
       = (two_users, Response 500 ''Server error while sending message'')
   \<and> post_upload quiet 10 (utf16 ''http://h'') alice_id (Some prefixed_id) None two_users
       = (two_users, Response 500 ''Server error while uploading message'')
   \<and> post_chat_create False quiet 10 alice_id prefixed_id two_users
       = (two_users, Response 500 ''Server error while creating chat'')
   \<and> User_findById two_users ''bob'' = Inl CastError
   \<and> send_message quiet 10 alice_id ''bob'' (utf16 ''hi'') None two_users
       = (two_users, [Emit ThisSocket ''error'' (P_error ''Error sending message'')])
   \<and> post_message quiet 10 alice_id ''bob'' (utf16 ''hi'') None two_users
       = (two_users, Response 400 ''Validation failed'')
   \<and> post_chat_create False quiet 10 alice_id ''bob'' two_users
       = (two_users, Response 400 ''Validation failed'')"
proof -
  have h: "User_findById two_users carol_id = Inr None"
    and h': "User_findById two_users prefixed_id = Inl CastError"
    and h'': "User_findById two_users ''bob'' = Inl CastError"
    by (simp_all add: lookup_defs example_defs)
  have m: "isMongoId carol_id" "isMongoId prefixed_id" "\<not> isMongoId ''bob''"
    by (simp_all add: lookup_defs example_defs)
  have l: "isLength_max 1000 (utf16 ''hi'')" "utf16 ''hi'' \<noteq> []"
    "carol_id \<noteq> []" "prefixed_id \<noteq> []"
    by (simp_all add: isLength_max_def utf16_def carol_id_def prefixed_id_def)
  have a: "User_findById two_users carol_id \<in> {Inl CastError, Inr None}"
    and b: "User_findById two_users prefixed_id \<in> {Inl CastError, Inr None}"
    and c: "User_findById two_users ''bob'' \<in> {Inl CastError, Inr None}"
    by (simp_all add: h h' h'')
  show ?thesis
    using h h' h'' m l
      receiver_must_exist [OF a, of quiet 10 alice_id "utf16 ''hi''" None "utf16 ''http://h''"
        None False]
      receiver_must_exist [OF b, of quiet 10 alice_id "utf16 ''hi''" None "utf16 ''http://h''"
        None False]
      receiver_must_exist [OF c, of quiet 10 alice_id "utf16 ''hi''" None "utf16 ''http://h''"
        None False]
    by simp
qed

text \<open>
  Claim C8 as stated fails. Alice exists and sends ``hi'' to herself: by the socket and
  by the route a chat with the pair key of Alice and Alice is created and the message
  is stored in it, and the caller is told that the message was sent. And when the
  socket's user Carol has no user document any more, her message to Bob creates a chat
  and a message all the same.
\<close>

theorem self_chat_counterexample:
  "User_findById two_users alice_id = Inr (Some alice)
   \<and> map participantsKey (chats (fst (send_message quiet 10 alice_id alice_id (utf16 ''hi'') None
                                        two_users)))
       = [key_aa]
   \<and> map chatId (messages (fst (send_message quiet 10 alice_id alice_id (utf16 ''hi'') None
                                  two_users))) = [0]
   \<and> map event (snd (send_message quiet 10 alice_id alice_id (utf16 ''hi'') None two_users))
       = [''new_message'', ''message_sent'', ''chat_message'']
   \<and> map participantsKey (chats (fst (post_message quiet 10 alice_id alice_id (utf16 ''hi'') None
                                        two_users)))
       = [key_aa]
   \<and> map chatId (messages (fst (post_message quiet 10 alice_id alice_id (utf16 ''hi'') None
                                  two_users))) = [0]
   \<and> status (snd (post_message quiet 10 alice_id alice_id (utf16 ''hi'') None two_users)) = 201
   \<and> User_findById two_users carol_id = Inr None
   \<and> map participants (chats (fst (send_message quiet 10 carol_id bob_id (utf16 ''hi'') None
                                     two_users)))
       = [[bob_id, carol_id]]
   \<and> map chatId (messages (fst (send_message quiet 10 carol_id bob_id (utf16 ''hi'') None
                                  two_users))) = [0]"
  by (simp add: send_message_def post_message_def lookup_defs resolve_chat_def
      participantsKey_of_def Chat_findOne_key_def quiet_def Chat_create_def pre_validate_def
      Message_save_def Message_validate_def trim_def is_space_def Chat_save_def populate_user_def
      example_defs)

section \<open>The insert that loses a race\<close>

text \<open>
  Claim C2. Let the first read by the pair key find no chat and let the insert fail
  with the error \<open>err\<close>, in the store \<open>s1\<close> that the writes of other handlers have made
  of \<open>s\<close>; let \<open>s3\<close> be the store at the second read. In the common block and in the
  block of \<^verbatim>\<open>POST /chat/create\<close>: if \<open>err\<close> is a duplicate-key error (code 11000) and the
  second read finds a chat, that chat is the result and no error leaves the block; if
  \<open>err\<close> is a duplicate-key error and the second read finds nothing, the failure is
  surfaced (the socket's \<^verbatim>\<open>error\<close> event, status 500 of the routes); and every other
  error is surfaced in the same way, without a second read. The handlers' answers are
  stated for a request that passes the checks made before the block (an existing
  receiver with a well-formed identity, a content that is not empty and at most 1000
  characters).
\<close>

theorem duplicate_key_is_recovered:
  fixes e :: env and s :: store and a b :: string
  defines "k \<equiv> participantsKey_of a b"
    and "s1 \<equiv> before_save e s"
    and "s3 \<equiv> before_reread e (before_save e s)"
  assumes absent: "Chat_findOne_key s k = None"
    and failed: "Chat_create (save_fault e) now s1 [a, b] = Inl err"
    and rcv: "User_findById s b = Inr (Some ru)"
    and mongo: "isMongoId b"
    and cont: "cont \<noteq> []" "length cont \<le> 1000"
  shows "(\<forall>c. error_code err = Some 11000 \<and> Chat_findOne_key s3 k = Some c \<longrightarrow>
            resolve_chat e now s a b = (s3, Inr c)
          \<and> resolve_chat_create e now s a b = (s3, Inr (Some c)))
       \<and> (error_code err = Some 11000 \<and> Chat_findOne_key s3 k = None \<longrightarrow>
            resolve_chat e now s a b = (s3, Inl err)
          \<and> send_message e now a b cont mt s
              = (s3, [Emit ThisSocket ''error'' (P_error ''Error sending message'')])
          \<and> post_message e now a b cont mt s
              = (s3, Response 500 ''Server error while sending message'')
          \<and> post_upload e now base a (Some b) file s
              = (s3, Response 500 ''Server error while uploading message'')
          \<and> post_chat_create retain e now a b s
              = (s3, Response 500 ''Server error while creating chat''))
       \<and> (error_code err \<noteq> Some 11000 \<longrightarrow>
            resolve_chat e now s a b = (s1, Inl err)
          \<and> resolve_chat_create e now s a b = (s1, Inl err)
          \<and> send_message e now a b cont mt s
              = (s1, [Emit ThisSocket ''error'' (P_error ''Error sending message'')])
          \<and> post_message e now a b cont mt s
              = (s1, Response 500 ''Server error while sending message'')
          \<and> post_upload e now base a (Some b) file s
              = (s1, Response 500 ''Server error while uploading message'')
          \<and> post_chat_create retain e now a b s
              = (s1, Response 500 ''Server error while creating chat''))"
proof -
  have b_ne: "b \<noteq> []" using mongo by (auto simp: isMongoId_def)
  have len: "isLength_max 1000 cont" using cont(2) by (rule isLength_max_le)
  have r: "resolve_chat e now s a b
      = (if error_code err = Some 11000
         then (s3, case Chat_findOne_key s3 k of Some c \<Rightarrow> Inr c | None \<Rightarrow> Inl err)
         else (s1, Inl err))"
    using absent failed
    by (simp add: resolve_chat_def k_def s1_def s3_def Let_def split: option.splits)
  have rc: "resolve_chat_create e now s a b
      = (if error_code err = Some 11000 then (s3, Inr (Chat_findOne_key s3 k)) else (s1, Inl err))"
    using absent failed
    by (simp add: resolve_chat_create_def k_def s1_def s3_def Let_def)
  have 1: "\<forall>c. error_code err = Some 11000 \<and> Chat_findOne_key s3 k = Some c \<longrightarrow>
            resolve_chat e now s a b = (s3, Inr c)
          \<and> resolve_chat_create e now s a b = (s3, Inr (Some c))"
    by (simp add: r rc)
  have 2: "resolve_chat e now s a b = (s3, Inl err)
          \<and> send_message e now a b cont mt s
              = (s3, [Emit ThisSocket ''error'' (P_error ''Error sending message'')])
          \<and> post_message e now a b cont mt s
              = (s3, Response 500 ''Server error while sending message'')
          \<and> post_upload e now base a (Some b) file s
              = (s3, Response 500 ''Server error while uploading message'')
          \<and> post_chat_create retain e now a b s
              = (s3, Response 500 ''Server error while creating chat'')"
    if "error_code err = Some 11000" "Chat_findOne_key s3 k = None"
    using that rcv mongo cont b_ne len
    by (auto simp: r rc send_message_def post_message_def post_upload_def post_chat_create_def)
  have 3: "resolve_chat e now s a b = (s1, Inl err)
          \<and> resolve_chat_create e now s a b = (s1, Inl err)
          \<and> send_message e now a b cont mt s
              = (s1, [Emit ThisSocket ''error'' (P_error ''Error sending message'')])
          \<and> post_message e now a b cont mt s
              = (s1, Response 500 ''Server error while sending message'')
          \<and> post_upload e now base a (Some b) file s
              = (s1, Response 500 ''Server error while uploading message'')
          \<and> post_chat_create retain e now a b s
              = (s1, Response 500 ''Server error while creating chat'')"
    if "error_code err \<noteq> Some 11000"
    using that rcv mongo cont b_ne len
    by (auto simp: r rc send_message_def post_message_def post_upload_def post_chat_create_def)
  show ?thesis
    using 1 2 3 by blast
qed


lemma Chat_create_duplicate:
  "castObjectId a = Some a \<Longrightarrow> castObjectId b = Some b \<Longrightarrow>
   Chat_findOne_key s (participantsKey_of a b) \<noteq> None \<Longrightarrow>
   Chat_create None now s [a, b] = Inl (MongoServerError 11000)"
  by (auto simp: Chat_create_def pre_validate_def participantsKey_of_def Chat_findOne_key_def
      Let_def list_ex_iff find_None_iff)

text \<open>
  On the store of the two users: in \<open>lost_race\<close> Alice's insert fails with code 11000,
  the second read finds Bob's chat, and her send and her explicit creation succeed in
  that chat; in \<open>legacy_index\<close> the second read finds nothing and the failure is
  surfaced; in \<open>store_down\<close> the error of the store is surfaced.
\<close>

theorem duplicate_key_is_recovered_witness:
  "Chat_findOne_key two_users (participantsKey_of alice_id bob_id) = None
   \<and> Chat_create (save_fault lost_race) 10 (before_save lost_race two_users) [alice_id, bob_id]
       = Inl (MongoServerError 11000)
   \<and> resolve_chat lost_race 10 two_users alice_id bob_id
       = (bob_first, Inr chat_by_bob)
   \<and> resolve_chat_create lost_race 10 two_users alice_id bob_id
       = (bob_first, Inr (Some chat_by_bob))
   \<and> map event (snd (send_message lost_race 10 alice_id bob_id (utf16 ''hi'') None two_users))
       = [''new_message'', ''message_sent'', ''chat_message'']
   \<and> post_chat_create False lost_race 10 alice_id bob_id two_users
       = (bob_first,
          Response 201 ''Chat created successfully'')
   \<and> Chat_create (save_fault legacy_index) 10 (before_save legacy_index two_users)
         [alice_id, bob_id] = Inl (MongoServerError 11000)
   \<and> send_message legacy_index 10 alice_id bob_id (utf16 ''hi'') None two_users
       = (two_users, [Emit ThisSocket ''error'' (P_error ''Error sending message'')])
   \<and> post_chat_create False legacy_index 10 alice_id bob_id two_users
       = (two_users, Response 500 ''Server error while creating chat'')
   \<and> Chat_create (save_fault store_down) 10 (before_save store_down two_users)
         [alice_id, bob_id] = Inl (Error ''connection closed'')
   \<and> resolve_chat store_down 10 two_users alice_id bob_id
       = (two_users, Inl (Error ''connection closed''))
   \<and> post_message store_down 10 alice_id bob_id (utf16 ''hi'') None two_users
       = (two_users, Response 500 ''Server error while sending message'')"
proof -
  have absent: "Chat_findOne_key two_users (participantsKey_of alice_id bob_id) = None"
    by (simp add: Chat_findOne_key_def two_users_def)
  have rcv: "User_findById two_users bob_id = Inr (Some bob)"
    by (simp add: lookup_defs example_defs)
  have mongo: "isMongoId bob_id"
    by (simp add: lookup_defs bob_id_def)
  have cont: "utf16 ''hi'' \<noteq> []" "length (utf16 ''hi'') \<le> 1000"
    by (simp_all add: utf16_def)
  have canon: "castObjectId alice_id = Some alice_id" "castObjectId bob_id = Some bob_id"
    by (simp_all add: lookup_defs example_defs)
  have s1: "before_save lost_race two_users = bob_first"
    by (simp add: racing_def run_writes_def Chat_create_def pre_validate_def chat_by_bob_def
        bob_first_def lookup_defs example_defs)
  have s3: "before_reread lost_race (bob_first)
      = bob_first"
    by (simp add: lost_race_def racing_def run_writes_def)
  have found: "Chat_findOne_key (bob_first)
      (participantsKey_of alice_id bob_id) = Some chat_by_bob"
    by (simp add: Chat_findOne_key_def participantsKey_of_def chat_by_bob_def bob_first_def example_defs)
  have f1: "Chat_create (save_fault lost_race) 10 (before_save lost_race two_users) [alice_id, bob_id]
       = Inl (MongoServerError 11000)"
    using Chat_create_duplicate [OF canon, of "bob_first" 10] found
    by (simp add: s1) (simp add: lost_race_def racing_def)
  have f2: "Chat_create (save_fault legacy_index) 10 (before_save legacy_index two_users)
         [alice_id, bob_id] = Inl (MongoServerError 11000)"
    by (simp add: legacy_index_def racing_def Chat_create_def)
  have none2: "Chat_findOne_key (before_reread legacy_index (before_save legacy_index two_users))
      (participantsKey_of alice_id bob_id) = None"
    using absent by (simp add: legacy_index_def racing_def run_writes_def)
  have id2: "before_reread legacy_index (before_save legacy_index two_users) = two_users"
    by (simp add: legacy_index_def racing_def run_writes_def)
  have f3: "Chat_create (save_fault store_down) 10 (before_save store_down two_users)
         [alice_id, bob_id] = Inl (Error ''connection closed'')"
    by (simp add: store_down_def racing_def Chat_create_def)
  have id3: "before_save store_down two_users = two_users"
    by (simp add: store_down_def racing_def run_writes_def)
  note a = duplicate_key_is_recovered [OF absent f1 rcv mongo cont, of None "utf16 ''h''" None False]
  note b = duplicate_key_is_recovered [OF absent f2 rcv mongo cont, of None "utf16 ''h''" None False]
  note c = duplicate_key_is_recovered [OF absent f3 rcv mongo cont, of None "utf16 ''h''" None False]
  have r1: "resolve_chat lost_race 10 two_users alice_id bob_id
       = (bob_first, Inr chat_by_bob)
     \<and> resolve_chat_create lost_race 10 two_users alice_id bob_id
       = (bob_first, Inr (Some chat_by_bob))"
    using a found by (simp add: s1 s3)
  have ev: "map event (snd (send_message lost_race 10 alice_id bob_id (utf16 ''hi'') None two_users))
       = [''new_message'', ''message_sent'', ''chat_message'']"
    using r1 rcv
    by (simp add: send_message_def Message_save_def Message_validate_def
        trim_def is_space_def Chat_save_def pre_validate_def populate_user_def lookup_defs
        chat_by_bob_def bob_first_def example_defs split: option.splits)
  have cc: "post_chat_create False lost_race 10 alice_id bob_id two_users
       = (bob_first,
          Response 201 ''Chat created successfully'')"
    using r1 rcv mongo
    by (simp add: post_chat_create_def populate_participants_def user_by_id_def
        chat_by_bob_def bob_first_def two_users_def alice_def bob_def alice_id_def bob_id_def
        split: option.splits)
  have r2: "send_message legacy_index 10 alice_id bob_id (utf16 ''hi'') None two_users
       = (two_users, [Emit ThisSocket ''error'' (P_error ''Error sending message'')])
     \<and> post_chat_create False legacy_index 10 alice_id bob_id two_users
       = (two_users, Response 500 ''Server error while creating chat'')"
    using b none2 by (simp add: id2)
  have r3: "resolve_chat store_down 10 two_users alice_id bob_id
       = (two_users, Inl (Error ''connection closed''))
     \<and> post_message store_down 10 alice_id bob_id (utf16 ''hi'') None two_users
       = (two_users, Response 500 ''Server error while sending message'')"
    using c by (simp add: id3)
  show ?thesis
    using absent f1 f2 f3 r1 ev cc r2 r3 by simp
qed

section \<open>The sweep\<close>






































lemma hasNullParticipant_dropped: "\<not> hasNullParticipant False s c"
  by (simp add: hasNullParticipant_def populate_participants_def list_ex_iff)




end
